theory Spec2Isabelle
  imports Main "HOL-Library.Word" "HOL-Library.AList"
begin

unbundle bit_operations_syntax

text \<open>
  A shallow embedding of the HTTP/2 client h2c: the connection engine
  (package connection, in \<^verbatim>\<open>src/main.go\<close>) and the header handling of the client library
  (\<^verbatim>\<open>src/http2client/http2client.go\<close>). State is passed explicitly; a function that can panic or exit
  returns a sum whose left side is the failure; the one loop that may not terminate
  returns an option.
\<close>

section \<open>Common types\<close>

type_synonym byte = "8 word"
type_synonym uint32 = "32 word"
type_synonym uint64 = "64 word"

text \<open>
  Go run-time failures that end the program: a panic of an index or slice expression,
  and \<^verbatim>\<open>os.Exit(code)\<close>.
\<close>

datatype failure = IndexOutOfRange | SliceBoundsOutOfRange | OsExit int

text \<open>The verb \<^verbatim>\<open>%v\<close> of package fmt on an unsigned integer: its decimal digits.\<close>

function fmt_nat :: "nat \<Rightarrow> string" where
  "fmt_nat n =
     (if n < 10 then [char_of (48 + n)] else fmt_nat (n div 10) @ [char_of (48 + n mod 10)])"
  by pat_completeness auto
termination
  by (relation "measure id") auto

declare fmt_nat.simps [simp del]

text \<open>\<^verbatim>\<open>hpack.HeaderField\<close>: a name, a value and the sensitive flag.\<close>

record HeaderField =
  Name :: string
  Value :: string
  Sensitive :: bool

section \<open>Package http2client: custom headers\<close>

text \<open>
  Go strings are byte sequences: \<^verbatim>\<open>name[i]\<close> reads one byte and panics outside
  \<^verbatim>\<open>0 <= i < len(name)\<close>; \<^verbatim>\<open>name[:n]\<close> panics outside \<^verbatim>\<open>0 <= n <= len(name)\<close>.
  Go's \<^verbatim>\<open>int\<close> is modelled by \<^typ>\<open>int\<close>, so \<^verbatim>\<open>len(name)-1\<close> is \<open>-1\<close> on the empty string.
\<close>

definition string_index :: "string \<Rightarrow> int \<Rightarrow> failure + char" where
  "string_index s i =
     (if 0 \<le> i \<and> i < int (length s) then Inr (s ! nat i) else Inl IndexOutOfRange)"

definition string_slice_to :: "string \<Rightarrow> int \<Rightarrow> failure + string" where
  "string_slice_to s n =
     (if 0 \<le> n \<and> n \<le> int (length s) then Inr (take (nat n) s) else Inl SliceBoundsOutOfRange)"

text \<open>
  The loop of \<^verbatim>\<open>normalizeHeaderName\<close>:
  \<^verbatim>\<open>for name[len(name)-1] == ':' { name = name[:len(name)-1] }\<close>.
\<close>

function normalizeHeaderName_loop :: "string \<Rightarrow> failure + string" where
  "normalizeHeaderName_loop name =
     (case string_index name (int (length name) - 1) of
        Inl p \<Rightarrow> Inl p
      | Inr c \<Rightarrow>
          if c = CHR '':'' then
            (case string_slice_to name (int (length name) - 1) of
               Inl p \<Rightarrow> Inl p
             | Inr name' \<Rightarrow> normalizeHeaderName_loop name')
          else Inr name)"
  by pat_completeness auto
termination
proof (relation "measure length")
  fix name :: string and c :: char and name' :: string
  assume "string_index name (int (length name) - 1) = Inr c"
    and "string_slice_to name (int (length name) - 1) = Inr name'"
  then have "name \<noteq> []" and "name' = take (nat (int (length name) - 1)) name"
    by (auto simp: string_index_def string_slice_to_def split: if_splits)
  then show "(name', name) \<in> measure length"
    by (cases name) auto
qed simp

declare normalizeHeaderName_loop.simps [simp del]

text \<open>
  \<^verbatim>\<open>strings.ToLower\<close> belongs to Go's standard library, not to the repository; it is a
  parameter of the model. \<open>ascii_ToLower\<close> is what it computes on ASCII input.
\<close>

definition normalizeHeaderName :: "(string \<Rightarrow> string) \<Rightarrow> string \<Rightarrow> failure + string" where
  "normalizeHeaderName ToLower name =
     (case normalizeHeaderName_loop name of
        Inl p \<Rightarrow> Inl p
      | Inr name' \<Rightarrow> Inr (ToLower name'))"

definition ascii_ToLower :: "string \<Rightarrow> string" where
  "ascii_ToLower s =
     map (\<lambda>c. if (65::nat) \<le> of_char c \<and> of_char c \<le> (90::nat)
                then char_of (of_char c + (32::nat)) else c) s"

text \<open>The part of \<^verbatim>\<open>Http2Client\<close> that \<^verbatim>\<open>SetHeader\<close> works on.\<close>

record Http2Client =
  customHeaders :: "HeaderField list"

definition SetHeader ::
  "(string \<Rightarrow> string) \<Rightarrow> Http2Client \<Rightarrow> string \<Rightarrow> string \<Rightarrow> failure + Http2Client" where
  "SetHeader ToLower h2c name value =
     (case normalizeHeaderName ToLower name of
        Inl p \<Rightarrow> Inl p
      | Inr n \<Rightarrow>
          Inr (h2c\<lparr>customHeaders :=
                 customHeaders h2c @ [\<lparr>Name = n, Value = value, Sensitive = False\<rparr>]\<rparr>))"

text \<open>The name without its trailing colons, as the documentation comment describes it.\<close>

definition strip_trailing_colons :: "string \<Rightarrow> string" where
  "strip_trailing_colons name = rev (dropWhile (\<lambda>c. c = CHR '':'') (rev name))"

section \<open>Packages frames, message and stream, as the connection uses them\<close>

text \<open>
  Only the packages connection and http2client are among the sources. The types of the
  packages \<^verbatim>\<open>frames\<close>, \<^verbatim>\<open>message\<close> and \<^verbatim>\<open>stream\<close> are declared here with the fields
  and constructors that the connection reads and calls.
\<close>

datatype Setting =
    SETTINGS_HEADER_TABLE_SIZE
  | SETTINGS_ENABLE_PUSH
  | SETTINGS_MAX_CONCURRENT_STREAMS
  | SETTINGS_INITIAL_WINDOW_SIZE
  | SETTINGS_MAX_FRAME_SIZE
  | SETTINGS_MAX_HEADER_LIST_SIZE

datatype ErrorCode =
    NO_ERROR | PROTOCOL_ERROR | INTERNAL_ERROR | FLOW_CONTROL_ERROR | SETTINGS_TIMEOUT
  | STREAM_CLOSED | FRAME_SIZE_ERROR | REFUSED_STREAM | CANCEL | COMPRESSION_ERROR

text \<open>
  Modelled from the spec: the frame variants of its section 4.1. The first argument of
  every variant is the stream id. \<open>DataFrame\<close> and \<open>HeadersFrame\<close> end with the
  END_STREAM flag; \<open>SettingsFrame\<close> and \<open>PingFrame\<close> carry Ack; a \<open>SettingsFrame\<close> holds
  the settings it sets; \<open>PushPromiseFrame\<close> holds the promised stream id and the headers.
\<close>

datatype Frame =
    DataFrame uint32 "byte list" bool
  | HeadersFrame uint32 "HeaderField list" bool
  | PriorityFrame uint32
  | RstStreamFrame uint32 ErrorCode
  | SettingsFrame uint32 bool "Setting \<rightharpoonup> uint32"
  | PushPromiseFrame uint32 uint32 "HeaderField list"
  | PingFrame uint32 uint64 bool
  | GoAwayFrame uint32 uint32 ErrorCode
  | WindowUpdateFrame uint32 uint32
  | ContinuationFrame uint32 "HeaderField list"

fun GetStreamId :: "Frame \<Rightarrow> uint32" where
  "GetStreamId (DataFrame sid _ _) = sid"
| "GetStreamId (HeadersFrame sid _ _) = sid"
| "GetStreamId (PriorityFrame sid) = sid"
| "GetStreamId (RstStreamFrame sid _) = sid"
| "GetStreamId (SettingsFrame sid _ _) = sid"
| "GetStreamId (PushPromiseFrame sid _ _) = sid"
| "GetStreamId (PingFrame sid _ _) = sid"
| "GetStreamId (GoAwayFrame sid _ _) = sid"
| "GetStreamId (WindowUpdateFrame sid _) = sid"
| "GetStreamId (ContinuationFrame sid _) = sid"

fun Frame_Type :: "Frame \<Rightarrow> string" where
  "Frame_Type (DataFrame _ _ _) = ''DATA''"
| "Frame_Type (HeadersFrame _ _ _) = ''HEADERS''"
| "Frame_Type (PriorityFrame _) = ''PRIORITY''"
| "Frame_Type (RstStreamFrame _ _) = ''RST_STREAM''"
| "Frame_Type (SettingsFrame _ _ _) = ''SETTINGS''"
| "Frame_Type (PushPromiseFrame _ _ _) = ''PUSH_PROMISE''"
| "Frame_Type (PingFrame _ _ _) = ''PING''"
| "Frame_Type (GoAwayFrame _ _ _) = ''GOAWAY''"
| "Frame_Type (WindowUpdateFrame _ _) = ''WINDOW_UPDATE''"
| "Frame_Type (ContinuationFrame _ _) = ''CONTINUATION''"

text \<open>\<^verbatim>\<open>frames.SETTINGS_X.IsSet(frame)\<close> and \<^verbatim>\<open>frames.SETTINGS_X.Get(frame)\<close>.\<close>

definition IsSet :: "Setting \<Rightarrow> (Setting \<rightharpoonup> uint32) \<Rightarrow> bool" where
  "IsSet s st = (st s \<noteq> None)"

definition Get :: "Setting \<Rightarrow> (Setting \<rightharpoonup> uint32) \<Rightarrow> uint32" where
  "Get s st = (case st s of Some v \<Rightarrow> v | None \<Rightarrow> 0)"

text \<open>
  \<^verbatim>\<open>message.HttpRequest\<close>: the header fields and the body; \<^verbatim>\<open>GetData() == nil\<close> is
  \<open>None\<close>, and an empty body that is not nil is \<open>Some []\<close>. \<^verbatim>\<open>message.PingRequest\<close> is
  the handle of one submitted ping command.
\<close>

record HttpRequest =
  reqHeaders :: "HeaderField list"
  reqData :: "byte list option"

datatype PingRequest = PingRequest nat

fun findHeader :: "string \<Rightarrow> HeaderField list \<Rightarrow> string" where
  "findHeader name [] = []"
| "findHeader name (header # headers) =
     (if Name header = name then Value header else findHeader name headers)"

definition GetHeader :: "HttpRequest \<Rightarrow> string \<Rightarrow> string" where
  "GetHeader request name = findHeader name (reqHeaders request)"

text \<open>What a command's completion handle is told.\<close>

datatype completion =
    PingCompletedSuccessfully PingRequest
  | HttpCompletedWithError HttpRequest string

datatype StreamState =
    IDLE | RESERVED_LOCAL | RESERVED_REMOTE | OPEN | HALF_CLOSED_LOCAL | HALF_CLOSED_REMOTE
  | CLOSED

text \<open>
  Modelled from the spec: a lifecycle state printed with \<^verbatim>\<open>%v\<close> is its name (package
  streamstate is not among the sources).
\<close>

fun StreamState_String :: "StreamState \<Rightarrow> string" where
  "StreamState_String IDLE = ''IDLE''"
| "StreamState_String RESERVED_LOCAL = ''RESERVED_LOCAL''"
| "StreamState_String RESERVED_REMOTE = ''RESERVED_REMOTE''"
| "StreamState_String OPEN = ''OPEN''"
| "StreamState_String HALF_CLOSED_LOCAL = ''HALF_CLOSED_LOCAL''"
| "StreamState_String HALF_CLOSED_REMOTE = ''HALF_CLOSED_REMOTE''"
| "StreamState_String CLOSED = ''CLOSED''"

text \<open>
  Modelled from the spec: a stream. It holds the arguments of \<^verbatim>\<open>stream.New\<close> (the id, the
  originating request, the two initial windows) and the calls the connection has made on
  it, in order: the frames handed to \<^verbatim>\<open>SendFrame\<close> ("enqueues for outbound emission"),
  the frames handed to \<^verbatim>\<open>ReceiveFrame\<close>, and \<^verbatim>\<open>CloseWithError\<close>. What the stream package
  computes from this history (the lifecycle state, whether a request can be associated,
  the draining of queued DATA) is a parameter, see \<open>externals\<close> below.
\<close>

record Stream =
  streamId :: uint32
  request :: "HttpRequest option"
  sendWindow :: uint32
  receiveWindow :: uint32
  sentFrames :: "Frame list"
  receivedFrames :: "Frame list"
  closedWithError :: "(ErrorCode \<times> string) option"

definition stream_New :: "uint32 \<Rightarrow> HttpRequest option \<Rightarrow> uint32 \<Rightarrow> uint32 \<Rightarrow> Stream" where
  "stream_New sid req sw rw =
     \<lparr>streamId = sid, request = req, sendWindow = sw, receiveWindow = rw,
      sentFrames = [], receivedFrames = [], closedWithError = None\<rparr>"

section \<open>Package connection: state\<close>

record info =
  host :: string
  port :: int

record settings =
  serverFrameSize :: uint32
  initialSendWindowSizeForNewStreams :: uint32
  initialReceiveWindowSizeForNewStreams :: uint32

text \<open>
  \<^verbatim>\<open>net.Conn\<close>: the byte slices written so far, the bytes still to be read, and whether
  \<^verbatim>\<open>Close\<close> was called. A write on a closed transport fails.
\<close>

record net_Conn =
  written :: "byte list list"
  incoming :: "byte list"
  closed :: bool

definition conn_Write :: "net_Conn \<Rightarrow> byte list \<Rightarrow> net_Conn \<times> string option" where
  "conn_Write nc bs =
     (if closed nc then (nc, Some ''use of closed network connection'')
      else (nc\<lparr>written := written nc @ [bs]\<rparr>, None))"

definition conn_Close :: "net_Conn \<Rightarrow> net_Conn" where
  "conn_Close nc = nc\<lparr>closed := True\<rparr>"

text \<open>\<^verbatim>\<open>io.ReadFull(conn, buf)\<close> with \<^verbatim>\<open>len(buf) = n\<close>: all \<open>n\<close> bytes or an error.\<close>

definition io_ReadFull :: "net_Conn \<Rightarrow> nat \<Rightarrow> (string + byte list) \<times> net_Conn" where
  "io_ReadFull nc n =
     (if closed nc then (Inl ''use of closed network connection'', nc)
      else if n \<le> length (incoming nc)
      then (Inr (take n (incoming nc)), nc\<lparr>incoming := drop n (incoming nc)\<rparr>)
      else (Inl (if incoming nc = [] \<and> 0 < n then ''EOF'' else ''unexpected EOF''),
            nc\<lparr>incoming := []\<rparr>))"

text \<open>The HPACK contexts are only handed to the codec; they are its dynamic tables.\<close>

type_synonym EncodingContext = "HeaderField list"
type_synonym DecodingContext = "HeaderField list"

datatype logline =
    FailedToWriteFrame string
  | ShouldSendGoAway string ErrorCode

text \<open>
  The struct \<^verbatim>\<open>connection\<close>. The map \<^verbatim>\<open>streams\<close> is a list of pairs with distinct keys:
  \<^verbatim>\<open>len(c.streams)\<close> is its length and \<^verbatim>\<open>range c.streams\<close> visits it in the list's order
  (Go leaves the order open). \<^verbatim>\<open>int64\<close> fields are integers kept in range by \<open>int64\<close>.
  The last two fields are not fields of the struct: what was printed to standard error,
  and the completions delivered to commands.
\<close>

record connection =
  info :: info
  settings :: settings
  streams :: "(uint32 \<times> Stream) list"
  nextPingId :: uint64
  pendingPingRequests :: "uint64 \<rightharpoonup> PingRequest"
  promisedStreamIDs :: "string \<rightharpoonup> uint32"
  conn :: net_Conn
  isShutdown :: bool
  encodingContext :: EncodingContext
  decodingContext :: DecodingContext
  remainingSendWindowSize :: int
  remainingReceiveWindowSize :: int
  incomingFrameFilters :: "(Frame \<Rightarrow> Frame) list option"
  outgoingFrameFilters :: "(Frame \<Rightarrow> Frame) list option"
  err :: "string option"
  stderr :: "logline list"
  completions :: "completion list"

text \<open>Two's complement wrap-around of \<^verbatim>\<open>int64\<close>, and the conversion \<^verbatim>\<open>uint32(x)\<close>.\<close>

definition int64 :: "int \<Rightarrow> int" where
  "int64 x = signed_take_bit 63 x"

definition uint32_of_int64 :: "int \<Rightarrow> uint32" where
  "uint32_of_int64 x = word_of_int x"

record FrameHeader =
  Length :: uint32
  HeaderType :: byte
  Flags :: byte
  HeaderStreamId :: uint32

text \<open>
  The functions of the packages \<^verbatim>\<open>frames\<close> and \<^verbatim>\<open>stream\<close> whose code is not among the
  sources, as parameters: \<^verbatim>\<open>frame.Encode(ctx)\<close>, \<^verbatim>\<open>frames.DecodeHeader\<close>,
  \<^verbatim>\<open>frames.FindDecoder\<close> (\<open>None\<close> is the nil decoder; a decoder returns a frame and an
  error, each of which can be nil), and of a stream \<^verbatim>\<open>GetState()\<close>,
  \<^verbatim>\<open>AssociateWithRequest(request)\<close> (the stream afterwards and the error it returns) and
  \<^verbatim>\<open>ProcessPendingDataFrames()\<close>, which acts on the connection the stream refers to.
\<close>

record externals =
  Encode :: "Frame \<Rightarrow> EncodingContext \<Rightarrow> string + (byte list \<times> EncodingContext)"
  DecodeHeader :: "byte list \<Rightarrow> FrameHeader"
  FindDecoder :: "byte \<Rightarrow>
    (byte \<Rightarrow> uint32 \<Rightarrow> byte list \<Rightarrow> DecodingContext
       \<Rightarrow> (Frame option \<times> string option) \<times> DecodingContext) option"
  GetState :: "Stream \<Rightarrow> StreamState"
  AssociateWithRequest :: "Stream \<Rightarrow> HttpRequest \<Rightarrow> Stream \<times> string option"
  ProcessPendingDataFrames :: "uint32 \<Rightarrow> connection \<Rightarrow> failure + connection"

section \<open>Package connection: operations\<close>

definition newConnection ::
  "net_Conn \<Rightarrow> string \<Rightarrow> int \<Rightarrow> (Frame \<Rightarrow> Frame) list option \<Rightarrow> (Frame \<Rightarrow> Frame) list option
   \<Rightarrow> connection" where
  "newConnection nc h p inFilters outFilters =
     \<lparr>info = \<lparr>host = h, port = p\<rparr>,
      settings = \<lparr>serverFrameSize = push_bit 13 2,
                  initialSendWindowSizeForNewStreams = push_bit 15 2 - 1,
                  initialReceiveWindowSizeForNewStreams = push_bit 15 2 - 1\<rparr>,
      streams = [],
      nextPingId = 0,
      pendingPingRequests = Map.empty,
      promisedStreamIDs = Map.empty,
      conn = nc,
      isShutdown = False,
      encodingContext = [],
      decodingContext = [],
      remainingSendWindowSize = push_bit 15 2 - 1,
      remainingReceiveWindowSize = push_bit 15 2 - 1,
      incomingFrameFilters = inFilters,
      outgoingFrameFilters = outFilters,
      err = None,
      stderr = [],
      completions = []\<rparr>"

definition Shutdown :: "connection \<Rightarrow> connection" where
  "Shutdown c = c\<lparr>isShutdown := True, conn := conn_Close (conn c)\<rparr>"

definition IsShutdown :: "connection \<Rightarrow> bool" where
  "IsShutdown c = isShutdown c"

text \<open>
  \<^verbatim>\<open>Write\<close>: the frame is encoded first; an encoding error ends the program. Then the
  outgoing filters run over the frame, and the bytes of the encoding made before are
  written. A failed write is only printed.
\<close>

definition Write :: "externals \<Rightarrow> connection \<Rightarrow> Frame \<Rightarrow> failure + connection" where
  "Write ext c frame =
     (case Encode ext frame (encodingContext c) of
        Inl e \<Rightarrow> Inl (OsExit (- 1))
      | Inr (encodedFrame, ctx') \<Rightarrow>
          (let frame' = (case outgoingFrameFilters c of
                           None \<Rightarrow> frame
                         | Some filters \<Rightarrow> fold (\<lambda>flt fr. flt fr) filters frame);
               (nc, werr) = conn_Write (conn c) encodedFrame
           in Inr (c\<lparr>encodingContext := ctx', conn := nc,
                     stderr := (case werr of
                                  None \<Rightarrow> stderr c
                                | Some e \<Rightarrow> stderr c @ [FailedToWriteFrame e])\<rparr>)))"

definition getStreamIfExists :: "connection \<Rightarrow> uint32 \<Rightarrow> Stream option" where
  "getStreamIfExists c sid = map_of (streams c) sid"

definition getOrCreateStream :: "connection \<Rightarrow> uint32 \<Rightarrow> connection" where
  "getOrCreateStream c sid =
     (case getStreamIfExists c sid of
        Some result \<Rightarrow> c
      | None \<Rightarrow>
          c\<lparr>streams := AList.update sid
               (stream_New sid None (initialSendWindowSizeForNewStreams (settings c))
                  (initialReceiveWindowSizeForNewStreams (settings c)))
               (streams c)\<rparr>)"

text \<open>
  A method call on the stream object stored under an id: Go holds streams by reference,
  so the call changes the object that the map holds.
\<close>

definition on_stream :: "uint32 \<Rightarrow> (Stream \<Rightarrow> Stream) \<Rightarrow> connection \<Rightarrow> connection" where
  "on_stream sid f c =
     (case map_of (streams c) sid of
        None \<Rightarrow> c
      | Some s \<Rightarrow> c\<lparr>streams := AList.update sid (f s) (streams c)\<rparr>)"

text \<open>
  Modelled from the spec: \<^verbatim>\<open>SendFrame\<close>, \<^verbatim>\<open>ReceiveFrame\<close> and \<^verbatim>\<open>CloseWithError\<close> of package
  stream, whose code is not among the sources. Each call is recorded in the history of
  the stream it is made on; what the stream does with the frame is left open.
\<close>

definition stream_SendFrame :: "uint32 \<Rightarrow> Frame \<Rightarrow> connection \<Rightarrow> connection" where
  "stream_SendFrame sid frame = on_stream sid (\<lambda>s. s\<lparr>sentFrames := sentFrames s @ [frame]\<rparr>)"

definition stream_ReceiveFrame :: "uint32 \<Rightarrow> Frame \<Rightarrow> connection \<Rightarrow> connection" where
  "stream_ReceiveFrame sid frame =
     on_stream sid (\<lambda>s. s\<lparr>receivedFrames := receivedFrames s @ [frame]\<rparr>)"

definition stream_CloseWithError :: "uint32 \<Rightarrow> ErrorCode \<Rightarrow> string \<Rightarrow> connection \<Rightarrow> connection" where
  "stream_CloseWithError sid code msg =
     on_stream sid (\<lambda>s. s\<lparr>closedWithError := Some (code, msg)\<rparr>)"

text \<open>\<^verbatim>\<open>max\<close> over a slice, and \<^verbatim>\<open>min\<close> of two numbers.\<close>

definition max_uint32s :: "uint32 list \<Rightarrow> uint32" where
  "max_uint32s numbers =
     (if length numbers = 0 then 0
      else fold (\<lambda>n result. if n > result then n else result) numbers (numbers ! 0))"

definition min_uint32 :: "uint32 \<Rightarrow> uint32 \<Rightarrow> uint32" where
  "min_uint32 a b = (if a < b then a else b)"

text \<open>
  \<^verbatim>\<open>newStream\<close>. \<^verbatim>\<open>make([]uint32, len(c.streams))\<close> is a slice of that many zeros, and the
  loop appends the odd ids behind them. The result is the new state and the id of the
  stream that was stored.
\<close>

definition streamIdsInUse :: "connection \<Rightarrow> uint32 list" where
  "streamIdsInUse c =
     fold (\<lambda>(id, _) ids. if id mod 2 = 1 then ids @ [id] else ids) (streams c)
       (replicate (length (streams c)) 0)"

definition nextStreamId :: "connection \<Rightarrow> uint32" where
  "nextStreamId c =
     (if length (streamIdsInUse c) > 0 then max_uint32s (streamIdsInUse c) + 2 else 1)"

definition newStream :: "connection \<Rightarrow> HttpRequest \<Rightarrow> connection \<times> uint32" where
  "newStream c req =
     (c\<lparr>streams := AList.update (nextStreamId c)
          (stream_New (nextStreamId c) (Some req)
             (initialSendWindowSizeForNewStreams (settings c))
             (initialReceiveWindowSizeForNewStreams (settings c)))
          (streams c)\<rparr>,
      nextStreamId c)"

definition connectionError :: "connection \<Rightarrow> ErrorCode \<Rightarrow> string \<Rightarrow> connection" where
  "connectionError c errorCode msg = c\<lparr>stderr := stderr c @ [ShouldSendGoAway msg errorCode]\<rparr>"

definition handleSettingsFrame :: "settings \<Rightarrow> (Setting \<rightharpoonup> uint32) \<Rightarrow> settings" where
  "handleSettingsFrame s st =
     (let s1 = (if IsSet SETTINGS_MAX_FRAME_SIZE st
                then s\<lparr>serverFrameSize := Get SETTINGS_MAX_FRAME_SIZE st\<rparr> else s)
      in if IsSet SETTINGS_INITIAL_WINDOW_SIZE st
         then s1\<lparr>initialSendWindowSizeForNewStreams := Get SETTINGS_INITIAL_WINDOW_SIZE st\<rparr>
         else s1)"

definition RemainingFlowControlWindowIsEnough :: "connection \<Rightarrow> int \<Rightarrow> bool" where
  "RemainingFlowControlWindowIsEnough c nBytesToWrite =
     (remainingReceiveWindowSize c > nBytesToWrite)"

definition DecreaseFlowControlWindow :: "connection \<Rightarrow> int \<Rightarrow> connection" where
  "DecreaseFlowControlWindow c nBytesToWrite =
     c\<lparr>remainingSendWindowSize := int64 (remainingSendWindowSize c - nBytesToWrite)\<rparr>"

definition increaseFlowControlWindow :: "connection \<Rightarrow> int \<Rightarrow> connection" where
  "increaseFlowControlWindow c nBytes =
     c\<lparr>remainingSendWindowSize := int64 (remainingSendWindowSize c + nBytes)\<rparr>"

fun process_all_streams :: "externals \<Rightarrow> uint32 list \<Rightarrow> connection \<Rightarrow> failure + connection" where
  "process_all_streams ext [] c = Inr c"
| "process_all_streams ext (sid # sids) c =
     (case ProcessPendingDataFrames ext sid c of
        Inl f \<Rightarrow> Inl f
      | Inr c' \<Rightarrow> process_all_streams ext sids c')"

definition handleWindowUpdateFrame :: "externals \<Rightarrow> connection \<Rightarrow> uint32 \<Rightarrow> failure + connection" where
  "handleWindowUpdateFrame ext c windowSizeIncrement =
     process_all_streams ext (map fst (streams c))
       (increaseFlowControlWindow c (uint windowSizeIncrement))"

definition flowControlForIncomingDataFrame ::
  "externals \<Rightarrow> connection \<Rightarrow> byte list \<Rightarrow> failure + connection" where
  "flowControlForIncomingDataFrame ext c frameData =
     (let threshold = push_bit 13 2;
          c1 = c\<lparr>remainingReceiveWindowSize :=
                  int64 (remainingReceiveWindowSize c - int (length frameData))\<rparr>
      in if remainingReceiveWindowSize c1 < threshold
         then (let diff = int64 ((push_bit 15 2 - 1) - remainingReceiveWindowSize c1);
                   c2 = c1\<lparr>remainingReceiveWindowSize :=
                           int64 (remainingReceiveWindowSize c1 + diff)\<rparr>
               in Write ext c2 (WindowUpdateFrame 0 (uint32_of_int64 diff)))
         else Inr c1)"

definition HandlePingRequest :: "externals \<Rightarrow> connection \<Rightarrow> PingRequest \<Rightarrow> failure + connection" where
  "HandlePingRequest ext c req =
     (let pingFrame = PingFrame 0 (nextPingId c) False;
          c1 = c\<lparr>nextPingId := nextPingId c + 1\<rparr>;
          c2 = c1\<lparr>pendingPingRequests := (pendingPingRequests c1)(nextPingId c \<mapsto> req)\<rparr>
      in Write ext c2 pingFrame)"

definition handleFrameForConnection :: "externals \<Rightarrow> connection \<Rightarrow> Frame \<Rightarrow> failure + connection" where
  "handleFrameForConnection ext c frame =
     (case frame of
        SettingsFrame sid ack st \<Rightarrow> Inr (c\<lparr>settings := handleSettingsFrame (settings c) st\<rparr>)
      | PingFrame sid payload ack \<Rightarrow>
          if ack then
            (case pendingPingRequests c payload of
               Some pendingPingRequest \<Rightarrow>
                 Inr (c\<lparr>pendingPingRequests := (pendingPingRequests c)(payload := None),
                        completions := completions c @ [PingCompletedSuccessfully pendingPingRequest]\<rparr>)
             | None \<Rightarrow> Inr c)
          else Write ext c (PingFrame 0 payload True)
      | WindowUpdateFrame sid windowSizeIncrement \<Rightarrow>
          handleWindowUpdateFrame ext c windowSizeIncrement
      | GoAwayFrame sid lastStreamId code \<Rightarrow> Inr (Shutdown c)
      | _ \<Rightarrow>
          Inr (connectionError c PROTOCOL_ERROR
                 (''Received '' @ Frame_Type frame @ '' frame with stream identifier 0x00.'')))"

definition handleIncomingDataFrame ::
  "externals \<Rightarrow> connection \<Rightarrow> Frame \<Rightarrow> failure + connection" where
  "handleIncomingDataFrame ext c frame =
     (case frame of
        DataFrame sid frameData endStream \<Rightarrow>
          (case flowControlForIncomingDataFrame ext c frameData of
             Inl f \<Rightarrow> Inl f
           | Inr c1 \<Rightarrow> Inr (stream_ReceiveFrame sid frame (getOrCreateStream c1 sid)))
      | _ \<Rightarrow> Inr c)"

definition handleIncomingRstStreamFrame :: "externals \<Rightarrow> connection \<Rightarrow> Frame \<Rightarrow> connection" where
  "handleIncomingRstStreamFrame ext c frame =
     (let c1 = getOrCreateStream c (GetStreamId frame)
      in case getStreamIfExists c1 (GetStreamId frame) of
           None \<Rightarrow> c1
         | Some stream \<Rightarrow>
             if GetState ext stream = IDLE
             then connectionError c1 PROTOCOL_ERROR
                    (''Received '' @ Frame_Type frame @ '' for strem in IDLE state.'')
             else stream_ReceiveFrame (GetStreamId frame) frame c1)"

definition handleIncomingPushPromiseFrame :: "externals \<Rightarrow> connection \<Rightarrow> Frame \<Rightarrow> connection" where
  "handleIncomingPushPromiseFrame ext c frame =
     (case frame of
        PushPromiseFrame sid promisedStreamId headers \<Rightarrow>
          (case getStreamIfExists c sid of
             None \<Rightarrow>
               connectionError c PROTOCOL_ERROR
                 (''Received '' @ Frame_Type frame @ '' frame for non-existing associated stream ''
                    @ fmt_nat (unat sid) @ ''.'')
           | Some stream \<Rightarrow>
               if \<not> (GetState ext stream = OPEN \<or> GetState ext stream = HALF_CLOSED_REMOTE)
               then connectionError c PROTOCOL_ERROR
                      (''Received '' @ Frame_Type frame @ '' frame for associated stream in state ''
                         @ StreamState_String (GetState ext stream) @ ''.'')
               else
                 (let c1 = stream_ReceiveFrame promisedStreamId frame
                             (getOrCreateStream c promisedStreamId);
                      method = findHeader '':method'' headers;
                      path = findHeader '':path'' headers
                  in if method \<noteq> ''GET''
                     then stream_CloseWithError promisedStreamId REFUSED_STREAM
                            (Frame_Type frame @ '' with method '' @ method @ '' not supported.'') c1
                     else c1\<lparr>promisedStreamIDs := (promisedStreamIDs c1)(path \<mapsto> promisedStreamId)\<rparr>))
      | _ \<Rightarrow> c)"

definition handleFrameForStream :: "externals \<Rightarrow> connection \<Rightarrow> Frame \<Rightarrow> failure + connection" where
  "handleFrameForStream ext c frame =
     (case frame of
        PushPromiseFrame sid promisedStreamId headers \<Rightarrow>
          Inr (handleIncomingPushPromiseFrame ext c frame)
      | DataFrame sid frameData endStream \<Rightarrow> handleIncomingDataFrame ext c frame
      | RstStreamFrame sid code \<Rightarrow> Inr (handleIncomingRstStreamFrame ext c frame)
      | _ \<Rightarrow>
          Inr (stream_ReceiveFrame (GetStreamId frame) frame
                 (getOrCreateStream c (GetStreamId frame))))"

definition HandleIncomingFrame :: "externals \<Rightarrow> connection \<Rightarrow> Frame \<Rightarrow> failure + connection" where
  "HandleIncomingFrame ext c frame =
     (if GetStreamId frame = 0 then handleFrameForConnection ext c frame
      else handleFrameForStream ext c frame)"

section \<open>Package connection: requests\<close>

text \<open>
  \<^verbatim>\<open>findStreamCreatedWithPushPromise\<close> returns a reference to a stream: the key under which
  the map holds it, with the stream; \<open>None\<close> is nil, also when the map has no such key.
\<close>

definition findStreamCreatedWithPushPromise ::
  "connection \<Rightarrow> string \<Rightarrow> connection \<times> (uint32 \<times> Stream) option" where
  "findStreamCreatedWithPushPromise c path =
     (case promisedStreamIDs c path of
        Some sid \<Rightarrow>
          (c\<lparr>promisedStreamIDs := (promisedStreamIDs c)(path := None)\<rparr>,
           case map_of (streams c) sid of None \<Rightarrow> None | Some s \<Rightarrow> Some (sid, s))
      | None \<Rightarrow> (c, None))"

text \<open>
  \<^verbatim>\<open>data[lo:hi]\<close> on a byte slice whose capacity is its length: it panics unless
  \<^verbatim>\<open>lo <= hi <= len(data)\<close>.
\<close>

definition bytes_slice :: "byte list \<Rightarrow> uint32 \<Rightarrow> uint32 \<Rightarrow> failure + byte list" where
  "bytes_slice bs lo hi =
     (if unat lo \<le> unat hi \<and> unat hi \<le> length bs
      then Inr (take (unat hi - unat lo) (drop (unat lo) bs))
      else Inl SliceBoundsOutOfRange)"

text \<open>
  The loop of \<^verbatim>\<open>sendDataFrames\<close>, in \<^verbatim>\<open>uint32\<close> arithmetic
  (\<open>total32\<close> is the source's \<^verbatim>\<open>total\<close>). It may run forever (a chunk
  size of 0), so its result is an option: \<open>None\<close> is a loop that does not return.
\<close>

partial_function (option) sendDataFrames_loop ::
  "uint32 \<Rightarrow> uint32 \<Rightarrow> byte list \<Rightarrow> uint32 \<Rightarrow> uint32 \<Rightarrow> connection \<Rightarrow> (failure + connection) option" where
  "sendDataFrames_loop chunkSize total32 bs sid nChunksSent c =
     (if nChunksSent * chunkSize < total32 then
        (case bytes_slice bs (nChunksSent * chunkSize)
                (min_uint32 ((nChunksSent + 1) * chunkSize) total32) of
           Inl p \<Rightarrow> Some (Inl p)
         | Inr nextChunk \<Rightarrow>
             sendDataFrames_loop chunkSize total32 bs sid (nChunksSent + 1)
               (stream_SendFrame sid
                  (DataFrame sid nextChunk ((nChunksSent + 1) * chunkSize \<ge> total32)) c))
      else Some (Inr c))"

definition sendDataFrames :: "connection \<Rightarrow> byte list \<Rightarrow> uint32 \<Rightarrow> (failure + connection) option" where
  "sendDataFrames c bs sid =
     sendDataFrames_loop (serverFrameSize (settings c)) (word_of_nat (length bs)) bs sid 0 c"

definition doRequest :: "connection \<Rightarrow> HttpRequest \<Rightarrow> (failure + connection) option" where
  "doRequest c req =
     (let (c1, sid) = newStream c req;
          headersFrame = HeadersFrame sid (reqHeaders req) (reqData req = None);
          c2 = stream_SendFrame sid headersFrame c1
      in case reqData req of
           None \<Rightarrow> Some (Inr c2)
         | Some bs \<Rightarrow> sendDataFrames c2 bs sid)"

definition handleGetRequest ::
  "externals \<Rightarrow> connection \<Rightarrow> HttpRequest \<Rightarrow> (failure + connection) option" where
  "handleGetRequest ext c req =
     (case findStreamCreatedWithPushPromise c (GetHeader req '':path'') of
        (c1, Some (sid, stream)) \<Rightarrow>
          (case AssociateWithRequest ext stream req of
             (stream', Some e) \<Rightarrow>
               Some (Inr (c1\<lparr>streams := AList.update sid stream' (streams c1),
                              completions := completions c1 @ [HttpCompletedWithError req e]\<rparr>))
           | (stream', None) \<Rightarrow>
               Some (Inr (c1\<lparr>streams := AList.update sid stream' (streams c1)\<rparr>)))
      | (c1, None) \<Rightarrow> doRequest c1 req)"

definition handlePutRequest :: "connection \<Rightarrow> HttpRequest \<Rightarrow> (failure + connection) option" where
  "handlePutRequest c req = doRequest c req"

definition handlePostRequest :: "connection \<Rightarrow> HttpRequest \<Rightarrow> (failure + connection) option" where
  "handlePostRequest c req = doRequest c req"

definition HandleHttpRequest ::
  "externals \<Rightarrow> connection \<Rightarrow> HttpRequest \<Rightarrow> (failure + connection) option" where
  "HandleHttpRequest ext c req =
     (let c0 = (case err c of
                  Some e \<Rightarrow> c\<lparr>completions := completions c @ [HttpCompletedWithError req e]\<rparr>
                | None \<Rightarrow> c);
          method = GetHeader req '':method''
      in if method = ''GET'' then handleGetRequest ext c0 req
         else if method = ''PUT'' then handlePutRequest c0 req
         else if method = ''POST'' then handlePostRequest c0 req
         else Some (Inr (c0\<lparr>completions := completions c0 @
                 [HttpCompletedWithError req
                    (''Request method '' @ [CHR 0x27] @ method @ [CHR 0x27]
                       @ '' not supported.'')]\<rparr>)))"

section \<open>Package connection: reading frames\<close>

text \<open>
  \<^verbatim>\<open>ReadNextFrame\<close> returns Go's pair of a frame and an error; \<open>None\<close> is nil. The
  filters run over the frame that the decoder returned, also when it returned an error
  with it. The filters of the model take frames: a nil frame is handed on as nil.
\<close>

definition apply_filters :: "(Frame \<Rightarrow> Frame) list option \<Rightarrow> Frame \<Rightarrow> Frame" where
  "apply_filters filters frame =
     (case filters of
        None \<Rightarrow> frame
      | Some fs \<Rightarrow> fold (\<lambda>flt fr. flt fr) fs frame)"

definition ReadNextFrame ::
  "externals \<Rightarrow> connection \<Rightarrow> (Frame option \<times> string option) \<times> connection" where
  "ReadNextFrame ext c =
     (case io_ReadFull (conn c) 9 of
        (Inl e, nc) \<Rightarrow> ((None, Some e), c\<lparr>conn := nc\<rparr>)
      | (Inr headerData, nc) \<Rightarrow>
          (let header = DecodeHeader ext headerData
           in case io_ReadFull nc (unat (Length header)) of
                (Inl e, nc') \<Rightarrow> ((None, Some e), c\<lparr>conn := nc'\<rparr>)
              | (Inr payload, nc') \<Rightarrow>
                  (case FindDecoder ext (HeaderType header) of
                     None \<Rightarrow>
                       ((None, Some (fmt_nat (unat (HeaderType header)) @ '': Unknown frame type.'')),
                        c\<lparr>conn := nc'\<rparr>)
                   | Some decodeFunc \<Rightarrow>
                       (case decodeFunc (Flags header) (HeaderStreamId header) payload
                               (decodingContext c) of
                          ((frame, e), dctx) \<Rightarrow>
                            ((map_option (apply_filters (incomingFrameFilters c)) frame, e),
                             c\<lparr>conn := nc', decodingContext := dctx\<rparr>)))))"

text \<open>
  Package http2client: the filters are registered by appending, and \<^verbatim>\<open>Connect\<close> hands the
  two lists to the connection.
\<close>

record Http2ClientFilters =
  h2cIncomingFrameFilters :: "(Frame \<Rightarrow> Frame) list"
  h2cOutgoingFrameFilters :: "(Frame \<Rightarrow> Frame) list"

definition AddFilterForIncomingFrames ::
  "Http2ClientFilters \<Rightarrow> (Frame \<Rightarrow> Frame) \<Rightarrow> Http2ClientFilters" where
  "AddFilterForIncomingFrames h2c flt =
     h2c\<lparr>h2cIncomingFrameFilters := h2cIncomingFrameFilters h2c @ [flt]\<rparr>"

definition AddFilterForOutgoingFrames ::
  "Http2ClientFilters \<Rightarrow> (Frame \<Rightarrow> Frame) \<Rightarrow> Http2ClientFilters" where
  "AddFilterForOutgoingFrames h2c flt =
     h2c\<lparr>h2cOutgoingFrameFilters := h2cOutgoingFrameFilters h2c @ [flt]\<rparr>"

section \<open>Receive-side flow control: the peer's view\<close>

text \<open>
  Incoming DATA frames, handled one after the other (the event loop is not among the
  sources; it calls the handler once per frame, in order).
\<close>

fun handleIncomingDataFrames :: "externals \<Rightarrow> connection \<Rightarrow> Frame list \<Rightarrow> failure + connection" where
  "handleIncomingDataFrames ext c [] = Inr c"
| "handleIncomingDataFrames ext c (frame # frames) =
     (case handleIncomingDataFrame ext c frame of
        Inl f \<Rightarrow> Inl f
      | Inr c' \<Rightarrow> handleIncomingDataFrames ext c' frames)"

text \<open>
  The receive window as the peer sees it: 65535, plus the increments of the WINDOW_UPDATE
  frames of stream 0 that it reads from the transport, minus the DATA bytes it has sent.
  \<open>decode\<close> is the peer's decoder of one written frame.
\<close>

fun window_increment :: "Frame option \<Rightarrow> int" where
  "window_increment (Some (WindowUpdateFrame sid increment)) = (if sid = 0 then uint increment else 0)"
| "window_increment _ = 0"

definition sent_window_increments :: "(byte list \<Rightarrow> Frame option) \<Rightarrow> byte list list \<Rightarrow> int" where
  "sent_window_increments decode bss = sum_list (map (\<lambda>bs. window_increment (decode bs)) bss)"

definition peer_receive_window :: "(byte list \<Rightarrow> Frame option) \<Rightarrow> connection \<Rightarrow> int \<Rightarrow> int" where
  "peer_receive_window decode c received =
     65535 + sent_window_increments decode (written (conn c)) - received"

fun DataFrame_length :: "Frame \<Rightarrow> nat" where
  "DataFrame_length (DataFrame sid frameData endStream) = length frameData"
| "DataFrame_length _ = 0"

fun is_DataFrame :: "Frame \<Rightarrow> bool" where
  "is_DataFrame (DataFrame sid frameData endStream) = True"
| "is_DataFrame _ = False"

section \<open>Fragmentation of a request body\<close>

text \<open>
  The fragmentation as the specification words it: consecutive DATA frames on one stream,
  each with at most \<open>k\<close> bytes, END_STREAM on the last one only.
\<close>

function fragment_body :: "uint32 \<Rightarrow> nat \<Rightarrow> byte list \<Rightarrow> Frame list" where
  "fragment_body sid k body =
     (if k = 0 \<or> body = [] then []
      else DataFrame sid (take k body) (length body \<le> k) # fragment_body sid k (drop k body))"
  by pat_completeness auto
termination
  by (relation "measure (\<lambda>(sid, k, body). length body)") auto

declare fragment_body.simps [simp del]

fun Frame_data :: "Frame \<Rightarrow> byte list" where
  "Frame_data (DataFrame sid frameData endStream) = frameData"
| "Frame_data _ = []"

fun Frame_endStream :: "Frame \<Rightarrow> bool" where
  "Frame_endStream (DataFrame sid frameData endStream) = endStream"
| "Frame_endStream (HeadersFrame sid headers endStream) = endStream"
| "Frame_endStream _ = False"

section \<open>An instance of the parameters\<close>

text \<open>
  A small codec and stream behaviour, to evaluate the operations on concrete inputs. A
  frame is written as its type code and the low byte of its stream id; a PING adds its
  flag and the low byte of its payload, a WINDOW_UPDATE the 32 bits of its increment, one
  per byte, lowest first. \<open>example_decode\<close> reads a WINDOW_UPDATE back, as the peer does.
\<close>

fun Frame_code :: "Frame \<Rightarrow> byte" where
  "Frame_code (DataFrame _ _ _) = 0"
| "Frame_code (HeadersFrame _ _ _) = 1"
| "Frame_code (PriorityFrame _) = 2"
| "Frame_code (RstStreamFrame _ _) = 3"
| "Frame_code (SettingsFrame _ _ _) = 4"
| "Frame_code (PushPromiseFrame _ _ _) = 5"
| "Frame_code (PingFrame _ _ _) = 6"
| "Frame_code (GoAwayFrame _ _ _) = 7"
| "Frame_code (WindowUpdateFrame _ _) = 8"
| "Frame_code (ContinuationFrame _ _) = 9"

fun example_body :: "Frame \<Rightarrow> byte list" where
  "example_body (PingFrame _ payload ack) = [of_bool ack, ucast payload]"
| "example_body (WindowUpdateFrame _ increment) =
     map (\<lambda>i. of_bool (bit increment i)) [0..<32]"
| "example_body _ = []"

definition example_Encode ::
  "Frame \<Rightarrow> EncodingContext \<Rightarrow> string + (byte list \<times> EncodingContext)" where
  "example_Encode frame ctx =
     Inr (Frame_code frame # ucast (GetStreamId frame) # example_body frame, ctx)"

fun example_decode :: "byte list \<Rightarrow> Frame option" where
  "example_decode (t # s # body) =
     (if t = 8 then Some (WindowUpdateFrame (ucast s) (horner_sum of_bool 2 (map (\<lambda>b. b \<noteq> 0) body)))
      else None)"
| "example_decode _ = None"

definition example_externals :: externals where
  "example_externals =
     \<lparr>Encode = example_Encode,
      DecodeHeader = (\<lambda>bs. \<lparr>Length = ucast (bs ! 2), HeaderType = bs ! 3, Flags = bs ! 4,
                             HeaderStreamId = ucast (bs ! 8)\<rparr>),
      FindDecoder = (\<lambda>t. if t = 8
                          then Some (\<lambda>flags sid payload ctx.
                                 ((Some (WindowUpdateFrame sid
                                            (horner_sum of_bool 2 (map (\<lambda>b. b \<noteq> 0) payload))),
                                   None), ctx))
                          else None),
      GetState = (\<lambda>s. if sentFrames s = [] \<and> receivedFrames s = [] then IDLE else OPEN),
      AssociateWithRequest = (\<lambda>s req. case request s of
                                          None \<Rightarrow> (s\<lparr>request := Some req\<rparr>, None)
                                        | Some r \<Rightarrow> (s, Some ''stream has a request'')),
      ProcessPendingDataFrames = (\<lambda>sid c. Inr c)\<rparr>"

definition example_conn :: net_Conn where
  "example_conn = \<lparr>written = [], incoming = [], closed = False\<rparr>"

definition example_connection :: connection where
  "example_connection = newConnection example_conn ''example'' 443 None None"

text \<open>
  A connection after a push promise for \<open>/style.css\<close> on stream 1 that promised stream 2,
  and a GET request for that path.
\<close>

definition cpush :: connection where
  "cpush = example_connection\<lparr>streams :=
       [(1, stream_New 1 None 65535 65535), (2, stream_New 2 None 65535 65535)],
     promisedStreamIDs := [''/style.css'' \<mapsto> 2]\<rparr>"

definition get_css :: HttpRequest where
  "get_css = \<lparr>reqHeaders = [\<lparr>Name = '':method'', Value = ''GET'', Sensitive = False\<rparr>,
                \<lparr>Name = '':path'', Value = ''/style.css'', Sensitive = False\<rparr>],
              reqData = None\<rparr>"

text \<open>A second GET request for that path, and a POST request.\<close>

definition get_css_again :: HttpRequest where
  "get_css_again =
     \<lparr>reqHeaders = [\<lparr>Name = '':method'', Value = ''GET'', Sensitive = False\<rparr>,
                   \<lparr>Name = '':path'', Value = ''/style.css'', Sensitive = False\<rparr>,
                   \<lparr>Name = ''accept'', Value = ''text/css'', Sensitive = False\<rparr>],
      reqData = None\<rparr>"

definition post_form :: HttpRequest where
  "post_form =
     \<lparr>reqHeaders = [\<lparr>Name = '':method'', Value = ''POST'', Sensitive = False\<rparr>,
                   \<lparr>Name = '':path'', Value = ''/form'', Sensitive = False\<rparr>],
      reqData = Some [65]\<rparr>"

section \<open>Header normalisation\<close>

lemma normalizeHeaderName_loop_snoc:
  "normalizeHeaderName_loop (xs @ [c]) =
     (if c = CHR '':'' then normalizeHeaderName_loop xs else Inr (xs @ [c]))"
  by (subst normalizeHeaderName_loop.simps)
     (simp add: string_index_def string_slice_to_def nth_append)

lemma normalizeHeaderName_loop_Nil:
  "normalizeHeaderName_loop [] = Inl IndexOutOfRange"
  by (subst normalizeHeaderName_loop.simps) (simp add: string_index_def)

lemma normalizeHeaderName_loop_all_colons:
  "list_all (\<lambda>c. c = CHR '':'') name \<Longrightarrow> normalizeHeaderName_loop name = Inl IndexOutOfRange"
  by (induction name rule: rev_induct)
     (simp_all add: normalizeHeaderName_loop_Nil normalizeHeaderName_loop_snoc)

lemma normalizeHeaderName_loop_strips:
  "\<not> list_all (\<lambda>c. c = CHR '':'') name \<Longrightarrow>
     normalizeHeaderName_loop name = Inr (strip_trailing_colons name)"
  by (induction name rule: rev_induct)
     (auto simp: normalizeHeaderName_loop_snoc strip_trailing_colons_def)

lemma strip_trailing_colons_decomp:
  "\<exists>k. name = strip_trailing_colons name @ replicate k (CHR '':'')"
proof -
  let ?P = "\<lambda>c. c = CHR '':''"
  have "rev (rev name) = rev (dropWhile ?P (rev name)) @ rev (takeWhile ?P (rev name))"
    using rev_append [of "takeWhile ?P (rev name)" "dropWhile ?P (rev name)"]
    by (simp only: takeWhile_dropWhile_id)
  then have 1: "name = strip_trailing_colons name @ rev (takeWhile ?P (rev name))"
    by (simp add: strip_trailing_colons_def)
  have "\<forall>c \<in> set (rev (takeWhile ?P (rev name))). c = CHR '':''"
    by (auto dest: set_takeWhileD)
  then have "rev (takeWhile ?P (rev name)) = replicate (length (rev (takeWhile ?P (rev name)))) (CHR '':'')"
    by (intro replicate_eqI) auto
  with 1 show ?thesis by metis
qed

lemma strip_trailing_colons_last:
  assumes "strip_trailing_colons name \<noteq> []"
  shows "last (strip_trailing_colons name) \<noteq> CHR '':''"
proof -
  let ?P = "\<lambda>c. c = CHR '':''"
  from assms have ne: "dropWhile ?P (rev name) \<noteq> []"
    by (simp add: strip_trailing_colons_def)
  then have "\<not> ?P (hd (dropWhile ?P (rev name)))"
    by (rule hd_dropWhile)
  with ne show ?thesis
    by (simp add: strip_trailing_colons_def last_rev)
qed

text \<open>
  Claim C10. For a name that is not made of colons only (so it is not empty),
  \<open>SetHeader\<close> appends one header field whose name is the lower-cased name without its
  trailing colons, and keeps the fields stored before: the stripped name is the given name
  minus a run of colons at its end, it is not empty and it does not end with a colon.
  For the empty name and for a name of colons only, the loop of \<open>normalizeHeaderName\<close>
  reaches \<^verbatim>\<open>name[len(name)-1]\<close> on the empty string, and the index expression panics.
\<close>

theorem SetHeader_normalizes:
  "(\<not> list_all (\<lambda>c. c = CHR '':'') name \<longrightarrow>
      SetHeader ToLower h2c name value =
        Inr (h2c\<lparr>customHeaders := customHeaders h2c @
               [\<lparr>Name = ToLower (strip_trailing_colons name), Value = value, Sensitive = False\<rparr>]\<rparr>)
      \<and> (\<exists>k. name = strip_trailing_colons name @ replicate k (CHR '':''))
      \<and> strip_trailing_colons name \<noteq> []
      \<and> last (strip_trailing_colons name) \<noteq> CHR '':'')
   \<and> (list_all (\<lambda>c. c = CHR '':'') name \<longrightarrow>
      normalizeHeaderName_loop name = Inl IndexOutOfRange
      \<and> SetHeader ToLower h2c name value = Inl IndexOutOfRange)"
proof (intro conjI impI)
  assume n: "\<not> list_all (\<lambda>c. c = CHR '':'') name"
  then show "SetHeader ToLower h2c name value =
        Inr (h2c\<lparr>customHeaders := customHeaders h2c @
               [\<lparr>Name = ToLower (strip_trailing_colons name), Value = value, Sensitive = False\<rparr>]\<rparr>)"
    by (simp add: SetHeader_def normalizeHeaderName_def normalizeHeaderName_loop_strips)
  show "\<exists>k. name = strip_trailing_colons name @ replicate k (CHR '':'')"
    by (rule strip_trailing_colons_decomp)
  from n have "dropWhile (\<lambda>c. c = CHR '':'') (rev name) \<noteq> []"
    by (simp add: dropWhile_eq_Nil_conv list_all_iff)
  then show ne: "strip_trailing_colons name \<noteq> []"
    by (simp add: strip_trailing_colons_def)
  then show "last (strip_trailing_colons name) \<noteq> CHR '':''"
    by (rule strip_trailing_colons_last)
next
  assume a: "list_all (\<lambda>c. c = CHR '':'') name"
  then show "normalizeHeaderName_loop name = Inl IndexOutOfRange"
    by (rule normalizeHeaderName_loop_all_colons)
  then show "SetHeader ToLower h2c name value = Inl IndexOutOfRange"
    by (simp add: SetHeader_def normalizeHeaderName_def)
qed

lemma ascii_ToLower_Content_Type: "ascii_ToLower ''Content-Type'' = ''content-type''"
  by code_simp

theorem SetHeader_normalizes_witness:
  "\<not> list_all (\<lambda>c. c = CHR '':'') ''Content-Type:''
   \<and> SetHeader ascii_ToLower \<lparr>customHeaders = []\<rparr> ''Content-Type:'' ''text/html'' =
       Inr \<lparr>customHeaders = [\<lparr>Name = ''content-type'', Value = ''text/html'', Sensitive = False\<rparr>]\<rparr>
   \<and> list_all (\<lambda>c. c = CHR '':'') ''::''
   \<and> SetHeader ascii_ToLower \<lparr>customHeaders = []\<rparr> ''::'' ''x'' = Inl IndexOutOfRange
   \<and> list_all (\<lambda>c. c = CHR '':'') []
   \<and> SetHeader ascii_ToLower \<lparr>customHeaders = []\<rparr> [] ''x'' = Inl IndexOutOfRange"
  using SetHeader_normalizes [of "''Content-Type:''" ascii_ToLower "\<lparr>customHeaders = []\<rparr>" "''text/html''"]
    SetHeader_normalizes [of "''::''" ascii_ToLower "\<lparr>customHeaders = []\<rparr>" "''x''"]
    SetHeader_normalizes [of "[]" ascii_ToLower "\<lparr>customHeaders = []\<rparr>" "''x''"]
  by (simp add: strip_trailing_colons_def ascii_ToLower_Content_Type)

section \<open>Stream id allocation\<close>

text \<open>
  Claim C1. The claim says that client stream ids start at 1 and stay odd also when
  even-numbered streams are in the map. In the code the scan list starts with one zero
  per stream of the map: on a new connection where a frame for stream 2 has arrived
  (\<open>getOrCreateStream\<close> stored stream 2, as after a HEADERS frame for stream 2), the list is \<open>[0]\<close>, its maximum is 0, and
  \<open>newStream\<close> allocates the id 2, which is even and replaces the stream stored there.
\<close>

theorem newStream_after_even_stream:
  "snd (newStream (getOrCreateStream (newConnection nc h p inFilters outFilters) 2) req) = 2
   \<and> streamIdsInUse (getOrCreateStream (newConnection nc h p inFilters outFilters) 2) = [0]
   \<and> map fst (streams (fst (newStream
        (getOrCreateStream (newConnection nc h p inFilters outFilters) 2) req))) = [2]
   \<and> map_of (streams (fst (newStream
        (getOrCreateStream (newConnection nc h p inFilters outFilters) 2) req))) 2 =
      Some (stream_New 2 (Some req) 65535 65535)
   \<and> map_sum id (\<lambda>c. snd (newStream c req))
        (HandleIncomingFrame ext (newConnection nc h p inFilters outFilters)
           (HeadersFrame 2 headers endStream)) = Inr 2"
  by (simp add: newConnection_def newStream_def getOrCreateStream_def getStreamIfExists_def
      nextStreamId_def streamIdsInUse_def max_uint32s_def HandleIncomingFrame_def
      handleFrameForStream_def stream_ReceiveFrame_def on_stream_def)

section \<open>Connection-level send window\<close>

text \<open>
  Claim C2. The claim says that the sufficiency check reads the send window, the counter
  that \<open>DecreaseFlowControlWindow\<close> decrements. In the code it reads the receive window:
  neither decreasing nor increasing the send window changes its answer, and on a new
  connection whose send window has been used up (65535 bytes sent) it still accepts 100
  bytes, which drives the send window to -100.
\<close>

theorem RemainingFlowControlWindowIsEnough_reads_receive_window:
  "RemainingFlowControlWindowIsEnough (DecreaseFlowControlWindow c k) n =
     RemainingFlowControlWindowIsEnough c n
   \<and> RemainingFlowControlWindowIsEnough (increaseFlowControlWindow c k) n =
     RemainingFlowControlWindowIsEnough c n
   \<and> remainingSendWindowSize
       (DecreaseFlowControlWindow (newConnection nc h p inFilters outFilters) 65535) = 0
   \<and> RemainingFlowControlWindowIsEnough
       (DecreaseFlowControlWindow (newConnection nc h p inFilters outFilters) 65535) 100
   \<and> remainingSendWindowSize
       (DecreaseFlowControlWindow
          (DecreaseFlowControlWindow (newConnection nc h p inFilters outFilters) 65535) 100) = - 100"
  by (simp add: newConnection_def DecreaseFlowControlWindow_def increaseFlowControlWindow_def
      RemainingFlowControlWindowIsEnough_def int64_def)

section \<open>Frame filters\<close>

lemma Write_ignores_outgoing_filters:
  "Write ext (c\<lparr>outgoingFrameFilters := fs\<rparr>) frame =
     (case Write ext (c\<lparr>outgoingFrameFilters := None\<rparr>) frame of
        Inl f \<Rightarrow> Inl f
      | Inr c' \<Rightarrow> Inr (c'\<lparr>outgoingFrameFilters := fs\<rparr>))"
  by (simp add: Write_def Let_def split: sum.splits prod.splits option.splits)

lemma ReadNextFrame_filters_in_order:
  assumes "io_ReadFull (conn c) 9 = (Inr headerData, nc)"
    and "io_ReadFull nc (unat (Length (DecodeHeader ext headerData))) = (Inr payload, nc')"
    and "FindDecoder ext (HeaderType (DecodeHeader ext headerData)) = Some decodeFunc"
    and "decodeFunc (Flags (DecodeHeader ext headerData))
           (HeaderStreamId (DecodeHeader ext headerData)) payload (decodingContext c) =
         ((Some frame, e), dctx)"
    and "incomingFrameFilters c = Some (h2cIncomingFrameFilters
           (AddFilterForIncomingFrames (AddFilterForIncomingFrames h2c f1) f2))"
    and "h2cIncomingFrameFilters h2c = []"
  shows "fst (ReadNextFrame ext c) = (Some (f2 (f1 frame)), e)"
  using assms by (simp add: ReadNextFrame_def Let_def apply_filters_def AddFilterForIncomingFrames_def)

text \<open>
  Claim C3. The incoming half holds (\<open>ReadNextFrame_filters_in_order\<close>). For outgoing
  frames the claim says that the bytes written are the encoding of the filtered frame. In
  the code \<open>Write\<close> encodes first and runs the filters afterwards, and their result is not
  used: with one outgoing filter that replaces every frame by a PRIORITY frame of stream 3,
  writing a PRIORITY frame of stream 1 puts the encoding of the frame of stream 1 on the
  transport.
\<close>

theorem Write_encodes_unfiltered_frame:
  "map_sum id (\<lambda>c'. written (conn c'))
     (Write example_externals
        (newConnection example_conn h p None (Some [\<lambda>frame. PriorityFrame 3]))
        (PriorityFrame 1)) = Inr [[2, 1]]
   \<and> Encode example_externals (PriorityFrame 1) [] = Inr ([2, 1], [])
   \<and> Encode example_externals (PriorityFrame 3) [] = Inr ([2, 3], [])"
  by (simp add: Write_def newConnection_def example_externals_def example_Encode_def
      example_conn_def conn_Write_def)

section \<open>SETTINGS frames\<close>

text \<open>
  Claim C4. The claim says that a SETTINGS frame without ACK is answered by a SETTINGS
  frame with ACK, and that one with ACK and a payload raises a connection error. In the
  code a SETTINGS frame on stream 0 only updates the stored settings, whatever its ACK
  flag: nothing is written to the transport, nothing is reported, and the two frames that
  differ in ACK alone leave the same state.
\<close>

theorem handleSettingsFrame_sends_nothing:
  "(\<exists>c'. handleFrameForConnection ext c (SettingsFrame sid ack st) = Inr c'
      \<and> settings c' = handleSettingsFrame (settings c) st
      \<and> conn c' = conn c \<and> stderr c' = stderr c \<and> isShutdown c' = isShutdown c)
   \<and> handleFrameForConnection ext c (SettingsFrame sid True st) =
     handleFrameForConnection ext c (SettingsFrame sid False st)
   \<and> serverFrameSize (handleSettingsFrame (settings (newConnection nc h p inFilters outFilters))
       [SETTINGS_MAX_FRAME_SIZE \<mapsto> 32768]) = 32768"
  by (simp add: handleFrameForConnection_def handleSettingsFrame_def IsSet_def Get_def
      newConnection_def)

section \<open>Connection errors\<close>

lemma rst_stream_idle_only_prints:
  assumes "getStreamIfExists c sid = None"
    and "GetState ext (stream_New sid None (initialSendWindowSizeForNewStreams (settings c))
           (initialReceiveWindowSizeForNewStreams (settings c))) = IDLE"
  shows "conn (handleIncomingRstStreamFrame ext c (RstStreamFrame sid code)) = conn c
    \<and> isShutdown (handleIncomingRstStreamFrame ext c (RstStreamFrame sid code)) = isShutdown c
    \<and> completions (handleIncomingRstStreamFrame ext c (RstStreamFrame sid code)) = completions c
    \<and> stderr (handleIncomingRstStreamFrame ext c (RstStreamFrame sid code)) =
        stderr c @ [ShouldSendGoAway ''Received RST_STREAM for strem in IDLE state.'' PROTOCOL_ERROR]"
  using assms
  by (simp add: handleIncomingRstStreamFrame_def Let_def getOrCreateStream_def
      getStreamIfExists_def update_conv' connectionError_def)

text \<open>
  Claim C5. The claim says that a connection-fatal error sends GOAWAY, closes the
  transport and fails the outstanding commands. In the code \<open>connectionError\<close> only prints
  a notice: after a HEADERS frame on stream 0 the transport has no new bytes and is not
  closed, the shutdown flag is unchanged, the pending pings are still pending and no
  command was completed.
\<close>

theorem connectionError_only_prints:
  "HandleIncomingFrame ext c (HeadersFrame 0 headers endStream) =
     Inr (c\<lparr>stderr := stderr c @
        [ShouldSendGoAway ''Received HEADERS frame with stream identifier 0x00.'' PROTOCOL_ERROR]\<rparr>)
   \<and> (\<exists>c'. HandleIncomingFrame ext c (HeadersFrame 0 headers endStream) = Inr c'
        \<and> conn c' = conn c \<and> isShutdown c' = isShutdown c
        \<and> pendingPingRequests c' = pendingPingRequests c \<and> completions c' = completions c)"
  by (simp add: HandleIncomingFrame_def handleFrameForConnection_def connectionError_def)

section \<open>PING\<close>

lemma Write_open:
  "Encode ext frame (encodingContext c) = Inr (bs, ctx') \<Longrightarrow> \<not> closed (conn c) \<Longrightarrow>
   Write ext c frame =
     Inr (c\<lparr>encodingContext := ctx', conn := (conn c)\<lparr>written := written (conn c) @ [bs]\<rparr>\<rparr>)"
  by (simp add: Write_def conn_Write_def)

text \<open>
  Claim C9. On stream 0, a PING without ACK is answered by writing a PING with the same
  payload and ACK (the transport being open, and \<open>bs\<close> being the encoding of that frame).
  A PING with ACK whose payload has a pending request completes that request, removes
  that entry alone, and a second ACK with the same payload changes nothing. A PING with
  ACK and no pending request for its payload changes nothing. \<open>HandlePingRequest\<close> writes
  a PING without ACK whose payload is the counter \<open>nextPingId\<close> and adds 1 to the counter:
  two requests in a row carry the payloads \<open>n\<close> and \<open>n + 1\<close>, which differ, and the second is
  the larger one unless the 64-bit counter wraps.
\<close>

theorem ping_handling:
  "(Encode ext (PingFrame 0 payload True) (encodingContext c) = Inr (bs, ctx') \<and> \<not> closed (conn c) \<longrightarrow>
      handleFrameForConnection ext c (PingFrame sid payload False) =
        Inr (c\<lparr>encodingContext := ctx',
               conn := (conn c)\<lparr>written := written (conn c) @ [bs]\<rparr>\<rparr>))
   \<and> (pendingPingRequests c payload = Some req \<longrightarrow>
      handleFrameForConnection ext c (PingFrame sid payload True) =
        Inr (c\<lparr>pendingPingRequests := (pendingPingRequests c)(payload := None),
               completions := completions c @ [PingCompletedSuccessfully req]\<rparr>)
      \<and> handleFrameForConnection ext
          (c\<lparr>pendingPingRequests := (pendingPingRequests c)(payload := None),
             completions := completions c @ [PingCompletedSuccessfully req]\<rparr>)
          (PingFrame sid payload True) =
        Inr (c\<lparr>pendingPingRequests := (pendingPingRequests c)(payload := None),
               completions := completions c @ [PingCompletedSuccessfully req]\<rparr>))
   \<and> (pendingPingRequests c payload = None \<longrightarrow>
      handleFrameForConnection ext c (PingFrame sid payload True) = Inr c)
   \<and> (Encode ext (PingFrame 0 (nextPingId c) False) (encodingContext c) = Inr (bs1, ctx1)
      \<and> Encode ext (PingFrame 0 (nextPingId c + 1) False) ctx1 = Inr (bs2, ctx2)
      \<and> \<not> closed (conn c) \<longrightarrow>
      (\<exists>c1 c2. HandlePingRequest ext c req1 = Inr c1 \<and> HandlePingRequest ext c1 req2 = Inr c2
         \<and> written (conn c1) = written (conn c) @ [bs1]
         \<and> written (conn c2) = written (conn c) @ [bs1, bs2]
         \<and> pendingPingRequests c1 = (pendingPingRequests c)(nextPingId c \<mapsto> req1)
         \<and> pendingPingRequests c2 =
             (pendingPingRequests c)(nextPingId c \<mapsto> req1, nextPingId c + 1 \<mapsto> req2)
         \<and> nextPingId c1 = nextPingId c + 1 \<and> nextPingId c2 = nextPingId c + 2
         \<and> nextPingId c \<noteq> nextPingId c + 1))
   \<and> (nextPingId c \<noteq> - 1 \<longrightarrow> nextPingId c < nextPingId c + 1)"
proof (intro conjI impI)
  assume "Encode ext (PingFrame 0 payload True) (encodingContext c) = Inr (bs, ctx') \<and> \<not> closed (conn c)"
  then show "handleFrameForConnection ext c (PingFrame sid payload False) =
        Inr (c\<lparr>encodingContext := ctx',
               conn := (conn c)\<lparr>written := written (conn c) @ [bs]\<rparr>\<rparr>)"
    by (simp add: handleFrameForConnection_def Write_open)
next
  assume "pendingPingRequests c payload = Some req"
  then show "handleFrameForConnection ext c (PingFrame sid payload True) =
        Inr (c\<lparr>pendingPingRequests := (pendingPingRequests c)(payload := None),
               completions := completions c @ [PingCompletedSuccessfully req]\<rparr>)"
    by (simp add: handleFrameForConnection_def)
next
  show "handleFrameForConnection ext
          (c\<lparr>pendingPingRequests := (pendingPingRequests c)(payload := None),
             completions := completions c @ [PingCompletedSuccessfully req]\<rparr>)
          (PingFrame sid payload True) =
        Inr (c\<lparr>pendingPingRequests := (pendingPingRequests c)(payload := None),
               completions := completions c @ [PingCompletedSuccessfully req]\<rparr>)"
    by (simp add: handleFrameForConnection_def)
next
  assume "pendingPingRequests c payload = None"
  then show "handleFrameForConnection ext c (PingFrame sid payload True) = Inr c"
    by (simp add: handleFrameForConnection_def)
next
  assume a: "Encode ext (PingFrame 0 (nextPingId c) False) (encodingContext c) = Inr (bs1, ctx1)
      \<and> Encode ext (PingFrame 0 (nextPingId c + 1) False) ctx1 = Inr (bs2, ctx2)
      \<and> \<not> closed (conn c)"
  define c1 where "c1 = c\<lparr>nextPingId := nextPingId c + 1,
      pendingPingRequests := (pendingPingRequests c)(nextPingId c \<mapsto> req1),
      encodingContext := ctx1, conn := (conn c)\<lparr>written := written (conn c) @ [bs1]\<rparr>\<rparr>"
  define c2 where "c2 = c1\<lparr>nextPingId := nextPingId c1 + 1,
      pendingPingRequests := (pendingPingRequests c1)(nextPingId c1 \<mapsto> req2),
      encodingContext := ctx2, conn := (conn c1)\<lparr>written := written (conn c1) @ [bs2]\<rparr>\<rparr>"
  from a have 1: "HandlePingRequest ext c req1 = Inr c1"
    by (simp add: HandlePingRequest_def Let_def Write_open c1_def)
  from a have 2: "HandlePingRequest ext c1 req2 = Inr c2"
    by (simp add: HandlePingRequest_def Let_def Write_open c1_def c2_def)
  have 3: "nextPingId c \<noteq> nextPingId c + 1"
    by simp
  show "\<exists>c1 c2. HandlePingRequest ext c req1 = Inr c1 \<and> HandlePingRequest ext c1 req2 = Inr c2
         \<and> written (conn c1) = written (conn c) @ [bs1]
         \<and> written (conn c2) = written (conn c) @ [bs1, bs2]
         \<and> pendingPingRequests c1 = (pendingPingRequests c)(nextPingId c \<mapsto> req1)
         \<and> pendingPingRequests c2 =
             (pendingPingRequests c)(nextPingId c \<mapsto> req1, nextPingId c + 1 \<mapsto> req2)
         \<and> nextPingId c1 = nextPingId c + 1 \<and> nextPingId c2 = nextPingId c + 2
         \<and> nextPingId c \<noteq> nextPingId c + 1"
    using 1 2 3 by (intro exI [of _ c1] exI [of _ c2]) (simp add: c1_def c2_def)
next
  assume "nextPingId c \<noteq> - 1"
  then show "nextPingId c < nextPingId c + 1"
    using inc_less_eq_self_iff_eq [of "nextPingId c"] by (simp add: linorder_not_le)
qed

theorem ping_handling_witness:
  "Encode example_externals (PingFrame 0 5 True) (encodingContext example_connection) =
     Inr ([6, 0, 1, 5], [])
   \<and> \<not> closed (conn example_connection)
   \<and> map_sum id (\<lambda>c. written (conn c))
       (handleFrameForConnection example_externals example_connection (PingFrame 0 5 False)) =
     Inr [[6, 0, 1, 5]]
   \<and> pendingPingRequests (example_connection\<lparr>pendingPingRequests := [5 \<mapsto> PingRequest 1]\<rparr>) 5 =
       Some (PingRequest 1)
   \<and> map_sum id completions
       (handleFrameForConnection example_externals
          (example_connection\<lparr>pendingPingRequests := [5 \<mapsto> PingRequest 1]\<rparr>)
          (PingFrame 0 5 True)) =
     Inr [PingCompletedSuccessfully (PingRequest 1)]
   \<and> pendingPingRequests example_connection 7 = None
   \<and> handleFrameForConnection example_externals example_connection (PingFrame 0 7 True) =
     Inr example_connection
   \<and> Encode example_externals (PingFrame 0 (nextPingId example_connection) False)
       (encodingContext example_connection) = Inr ([6, 0, 0, 0], [])
   \<and> Encode example_externals (PingFrame 0 (nextPingId example_connection + 1) False) [] =
       Inr ([6, 0, 0, 1], [])
   \<and> (\<exists>c1 c2. HandlePingRequest example_externals example_connection (PingRequest 1) = Inr c1
        \<and> HandlePingRequest example_externals c1 (PingRequest 2) = Inr c2
        \<and> written (conn c2) = [[6, 0, 0, 0], [6, 0, 0, 1]])
   \<and> nextPingId example_connection \<noteq> - 1
   \<and> nextPingId example_connection < nextPingId example_connection + 1"
proof -
  let ?cp = "example_connection\<lparr>pendingPingRequests := [5 \<mapsto> PingRequest 1]\<rparr>"
  note defs = example_externals_def example_Encode_def example_connection_def
    newConnection_def example_conn_def
  have e1: "Encode example_externals (PingFrame 0 5 True) (encodingContext example_connection) =
      Inr ([6, 0, 1, 5], [])"
    by (simp add: defs)
  have e2: "Encode example_externals (PingFrame 0 (nextPingId example_connection) False)
       (encodingContext example_connection) = Inr ([6, 0, 0, 0], [])"
    by (simp add: defs)
  have e3: "Encode example_externals (PingFrame 0 (nextPingId example_connection + 1) False) [] =
       Inr ([6, 0, 0, 1], [])"
    by (simp add: defs)
  have o: "\<not> closed (conn example_connection)"
    by (simp add: defs)
  have p5: "pendingPingRequests ?cp 5 = Some (PingRequest 1)"
    by simp
  have p7: "pendingPingRequests example_connection 7 = None"
    by (simp add: defs)
  have n: "nextPingId example_connection \<noteq> - 1"
    by (simp add: defs)
  note A = ping_handling [of example_externals 5 example_connection "[6, 0, 1, 5]" "[]" 0
      "PingRequest 1" "[6, 0, 0, 0]" "[]" "[6, 0, 0, 1]" "[]" "PingRequest 1" "PingRequest 2"]
  note B = ping_handling [of example_externals 5 ?cp "[6, 0, 1, 5]" "[]" 0 "PingRequest 1"]
  note C = ping_handling [of example_externals 7 example_connection "[6, 0, 1, 5]" "[]" 0
      "PingRequest 1"]
  from A e1 o have "handleFrameForConnection example_externals example_connection
      (PingFrame 0 5 False) =
      Inr (example_connection\<lparr>encodingContext := [],
        conn := (conn example_connection)\<lparr>written := written (conn example_connection) @
          [[6, 0, 1, 5]]\<rparr>\<rparr>)"
    by blast
  then have r1: "map_sum id (\<lambda>c. written (conn c))
       (handleFrameForConnection example_externals example_connection (PingFrame 0 5 False)) =
     Inr [[6, 0, 1, 5]]"
    by (simp add: example_connection_def newConnection_def example_conn_def)
  from B p5 have "handleFrameForConnection example_externals ?cp (PingFrame 0 5 True) =
      Inr (?cp\<lparr>pendingPingRequests := (pendingPingRequests ?cp)(5 := None),
        completions := completions ?cp @ [PingCompletedSuccessfully (PingRequest 1)]\<rparr>)"
    by blast
  then have r2: "map_sum id completions
       (handleFrameForConnection example_externals ?cp (PingFrame 0 5 True)) =
     Inr [PingCompletedSuccessfully (PingRequest 1)]"
    by (simp add: example_connection_def newConnection_def)
  from C p7 have r3: "handleFrameForConnection example_externals example_connection
      (PingFrame 0 7 True) = Inr example_connection"
    by blast
  from A e2 e3 o obtain c1 c2 where
    "HandlePingRequest example_externals example_connection (PingRequest 1) = Inr c1"
    "HandlePingRequest example_externals c1 (PingRequest 2) = Inr c2"
    "written (conn c2) = written (conn example_connection) @ [[6, 0, 0, 0], [6, 0, 0, 1]]"
    by blast
  then have r4: "\<exists>c1 c2. HandlePingRequest example_externals example_connection (PingRequest 1) = Inr c1
        \<and> HandlePingRequest example_externals c1 (PingRequest 2) = Inr c2
        \<and> written (conn c2) = [[6, 0, 0, 0], [6, 0, 0, 1]]"
    by (auto simp: example_connection_def newConnection_def example_conn_def)
  from A n have r5: "nextPingId example_connection < nextPingId example_connection + 1"
    by blast
  from e1 o r1 p5 r2 p7 r3 e2 e3 r4 n r5 show ?thesis
    by (intro conjI)
qed

section \<open>Receive-side flow control\<close>


lemma int64_id: "- (2 ^ 63) \<le> x \<Longrightarrow> x < 2 ^ 63 \<Longrightarrow> int64 x = x"
  by (simp add: int64_def signed_take_bit_int_eq_self)

lemma uint32_of_int64_exact:
  "0 \<le> x \<Longrightarrow> x < 2 ^ 32 \<Longrightarrow> uint (uint32_of_int64 x) = x"
  by (simp add: uint32_of_int64_def uint_word_of_int take_bit_int_eq_self)

lemma flowControl_above_threshold:
  assumes "0 \<le> remainingReceiveWindowSize c" "remainingReceiveWindowSize c \<le> 65535"
    and "length frameData < 2 ^ 24"
    and "16384 \<le> remainingReceiveWindowSize c - int (length frameData)"
  shows "flowControlForIncomingDataFrame ext c frameData =
     Inr (c\<lparr>remainingReceiveWindowSize := remainingReceiveWindowSize c - int (length frameData)\<rparr>)"
proof -
  have "int64 (remainingReceiveWindowSize c - int (length frameData)) =
      remainingReceiveWindowSize c - int (length frameData)"
    using assms by (intro int64_id) simp_all
  with assms(4) show ?thesis
    by (simp add: flowControlForIncomingDataFrame_def Let_def)
qed

lemma flowControl_below_threshold:
  assumes "0 \<le> remainingReceiveWindowSize c" "remainingReceiveWindowSize c \<le> 65535"
    and "length frameData < 2 ^ 24"
    and "remainingReceiveWindowSize c - int (length frameData) < 16384"
    and "\<not> closed (conn c)"
    and "Encode ext (WindowUpdateFrame 0
           (uint32_of_int64 (65535 - (remainingReceiveWindowSize c - int (length frameData)))))
           (encodingContext c) = Inr (bs, ctx')"
  shows "flowControlForIncomingDataFrame ext c frameData =
     Inr (c\<lparr>remainingReceiveWindowSize := 65535, encodingContext := ctx',
            conn := (conn c)\<lparr>written := written (conn c) @ [bs]\<rparr>\<rparr>)"
proof -
  let ?rw = "remainingReceiveWindowSize c - int (length frameData)"
  have n: "int (length frameData) < 2 ^ 24"
    using assms(3) by (metis of_nat_less_iff of_nat_numeral of_nat_power)
  have 1: "int64 ?rw = ?rw"
    using assms(1,2) n by (intro int64_id) simp_all
  have 2: "int64 (65535 - ?rw) = 65535 - ?rw"
    using assms(1,2) n by (intro int64_id) simp_all
  have 3: "int64 (?rw + (65535 - ?rw)) = 65535"
    by (simp add: int64_def)
  from assms(4,5,6) 1 2 3 show ?thesis
    by (simp add: flowControlForIncomingDataFrame_def Let_def Write_open)
qed

lemma sent_window_increments_snoc:
  "sent_window_increments decode (bss @ [bs]) =
     sent_window_increments decode bss + window_increment (decode bs)"
  by (simp add: sent_window_increments_def)

lemma getOrCreateStream_frame [simp]:
  "conn (getOrCreateStream c sid) = conn c"
  "remainingReceiveWindowSize (getOrCreateStream c sid) = remainingReceiveWindowSize c"
  "encodingContext (getOrCreateStream c sid) = encodingContext c"
  by (simp_all add: getOrCreateStream_def split: option.splits)

lemma on_stream_frame [simp]:
  "conn (on_stream sid f c) = conn c"
  "remainingReceiveWindowSize (on_stream sid f c) = remainingReceiveWindowSize c"
  "encodingContext (on_stream sid f c) = encodingContext c"
  by (simp_all add: on_stream_def split: option.splits)

lemma handleIncomingDataFrame_step:
  assumes codec: "\<forall>increment ctx. 49152 \<le> uint increment \<and> uint increment \<le> 16842750 \<longrightarrow>
        (\<exists>bs ctx'. Encode ext (WindowUpdateFrame 0 increment) ctx = Inr (bs, ctx')
           \<and> decode bs = Some (WindowUpdateFrame 0 increment))"
    and op: "\<not> closed (conn c)"
    and r0: "0 \<le> remainingReceiveWindowSize c" and r1: "remainingReceiveWindowSize c \<le> 65535"
    and n: "length frameData < 2 ^ 24"
  shows "\<exists>c'. handleIncomingDataFrame ext c (DataFrame sid frameData endStream) = Inr c'
      \<and> \<not> closed (conn c')
      \<and> 16384 \<le> remainingReceiveWindowSize c' \<and> remainingReceiveWindowSize c' \<le> 65535
      \<and> remainingReceiveWindowSize c' - sent_window_increments decode (written (conn c')) =
          remainingReceiveWindowSize c - sent_window_increments decode (written (conn c))
            - int (length frameData)"
proof (cases "16384 \<le> remainingReceiveWindowSize c - int (length frameData)")
  case True
  from flowControl_above_threshold [OF r0 r1 n True, of ext] True r1 op show ?thesis
    by (simp add: handleIncomingDataFrame_def stream_ReceiveFrame_def)
next
  case False
  let ?d = "65535 - (remainingReceiveWindowSize c - int (length frameData))"
  have lt: "remainingReceiveWindowSize c - int (length frameData) < 16384"
    using False by simp
  have n': "int (length frameData) < 2 ^ 24"
    using n by (metis of_nat_less_iff of_nat_numeral of_nat_power)
  have u: "uint (uint32_of_int64 ?d) = ?d"
    using r0 r1 n' lt by (intro uint32_of_int64_exact) simp_all
  have "49152 \<le> ?d \<and> ?d \<le> 16842750"
    using r0 n' lt by simp
  with u have "49152 \<le> uint (uint32_of_int64 ?d) \<and> uint (uint32_of_int64 ?d) \<le> 16842750"
    by simp
  with codec obtain bs ctx' where
    e: "Encode ext (WindowUpdateFrame 0 (uint32_of_int64 ?d)) (encodingContext c) = Inr (bs, ctx')"
    and d: "decode bs = Some (WindowUpdateFrame 0 (uint32_of_int64 ?d))"
    by blast
  from d u have w: "window_increment (decode bs) = ?d"
    by simp
  from flowControl_below_threshold [OF r0 r1 n lt op e] w op show ?thesis
    by (simp add: handleIncomingDataFrame_def stream_ReceiveFrame_def sent_window_increments_snoc)
qed

lemma handleIncomingDataFrames_invariant:
  assumes codec: "\<forall>increment ctx. 49152 \<le> uint increment \<and> uint increment \<le> 16842750 \<longrightarrow>
        (\<exists>bs ctx'. Encode ext (WindowUpdateFrame 0 increment) ctx = Inr (bs, ctx')
           \<and> decode bs = Some (WindowUpdateFrame 0 increment))"
  shows "\<not> closed (conn c) \<Longrightarrow> 0 \<le> remainingReceiveWindowSize c \<Longrightarrow>
     remainingReceiveWindowSize c \<le> 65535 \<Longrightarrow>
     list_all (\<lambda>f. is_DataFrame f \<and> DataFrame_length f < 2 ^ 24) frames \<Longrightarrow>
     \<exists>c'. handleIncomingDataFrames ext c frames = Inr c'
       \<and> \<not> closed (conn c')
       \<and> 0 \<le> remainingReceiveWindowSize c' \<and> remainingReceiveWindowSize c' \<le> 65535
       \<and> (frames = [] \<or> 16384 \<le> remainingReceiveWindowSize c')
       \<and> remainingReceiveWindowSize c' - sent_window_increments decode (written (conn c')) =
           remainingReceiveWindowSize c - sent_window_increments decode (written (conn c))
             - int (sum_list (map DataFrame_length frames))"
proof (induction frames arbitrary: c)
  case Nil
  then show ?case by simp
next
  case (Cons frame frames)
  from Cons.prems(4) obtain sid frameData endStream where
    f: "frame = DataFrame sid frameData endStream" and n: "length frameData < 2 ^ 24"
    by (cases frame) auto
  from handleIncomingDataFrame_step [OF codec Cons.prems(1,2,3) n, of sid endStream]
  obtain c1 where s: "handleIncomingDataFrame ext c frame = Inr c1"
    and o1: "\<not> closed (conn c1)"
    and lo: "16384 \<le> remainingReceiveWindowSize c1" and hi: "remainingReceiveWindowSize c1 \<le> 65535"
    and acc: "remainingReceiveWindowSize c1 - sent_window_increments decode (written (conn c1)) =
          remainingReceiveWindowSize c - sent_window_increments decode (written (conn c))
            - int (length frameData)"
    unfolding f by blast
  from lo have lo0: "0 \<le> remainingReceiveWindowSize c1" by simp
  from Cons.prems(4) have rest: "list_all (\<lambda>f. is_DataFrame f \<and> DataFrame_length f < 2 ^ 24) frames"
    by simp
  from Cons.IH [OF o1 lo0 hi rest] obtain c' where
    r: "handleIncomingDataFrames ext c1 frames = Inr c'"
    and o2: "\<not> closed (conn c')"
    and b: "0 \<le> remainingReceiveWindowSize c'" "remainingReceiveWindowSize c' \<le> 65535"
    and t: "frames = [] \<or> 16384 \<le> remainingReceiveWindowSize c'"
    and acc2: "remainingReceiveWindowSize c' - sent_window_increments decode (written (conn c')) =
           remainingReceiveWindowSize c1 - sent_window_increments decode (written (conn c1))
             - int (sum_list (map DataFrame_length frames))"
    by blast
  have t': "16384 \<le> remainingReceiveWindowSize c'"
  proof (cases "frames = []")
    case True
    with r have "c' = c1" by simp
    with lo show ?thesis by simp
  next
    case False
    with t show ?thesis by simp
  qed
  from s r o2 b t' acc acc2 show ?case
    by (simp add: f)
qed

lemma example_codec_roundtrip:
  "\<forall>increment ctx. \<exists>bs ctx'.
     Encode example_externals (WindowUpdateFrame 0 increment) ctx = Inr (bs, ctx')
     \<and> example_decode bs = Some (WindowUpdateFrame 0 increment)"
proof (intro allI)
  fix increment :: uint32 and ctx :: EncodingContext
  have "map ((\<lambda>b. b \<noteq> (0::byte)) \<circ> (\<lambda>i. of_bool (bit increment i))) [0..<32] =
      map (bit increment) [0..<32]"
    by (intro map_cong) simp_all
  then have "horner_sum of_bool 2
      (map (\<lambda>b. b \<noteq> (0::byte)) (map (\<lambda>i. of_bool (bit increment i)) [0..<32])) =
      take_bit 32 increment"
    by (simp only: map_map horner_sum_bit_eq_take_bit)
  moreover have "take_bit 32 increment = increment"
    by (rule take_bit_word_eq_self) simp
  ultimately have "example_decode (8 # 0 # map (\<lambda>i. of_bool (bit increment i)) [0..<32]) =
      Some (WindowUpdateFrame 0 increment)"
    by (simp del: upt_rec_numeral)
  then show "\<exists>bs ctx'.
     Encode example_externals (WindowUpdateFrame 0 increment) ctx = Inr (bs, ctx')
     \<and> example_decode bs = Some (WindowUpdateFrame 0 increment)"
    by (simp add: example_externals_def example_Encode_def del: upt_rec_numeral)
qed

text \<open>
  Claim C7, amended. The low-water mark of the code is the constant 16384
  (\<^verbatim>\<open>2 << 13\<close>), not the peer's current maximum frame size. Let the transport be open,
  the receive window be within 0 and 65535 and equal to the window as the peer sees it,
  and the payloads be shorter than \<open>2^24\<close> bytes (the limit of the frame format). The one
  condition on the codec: a WINDOW_UPDATE frame of stream 0 whose increment is between
  49152 and 16842750 (\<open>65535 + 2^24 - 1\<close>; no other increment is ever written) is encoded
  without error, and the peer decodes the bytes to that frame. Then a DATA payload that
  leaves the window at 16384 or more only decrements it by its length; one that takes it
  below 16384 also writes a WINDOW_UPDATE of stream 0 whose increment is 65535 minus the
  decremented window, and the window is 65535 afterwards. After any sequence of such DATA
  frames the window as the peer sees it (65535 plus the increments it has read minus the
  bytes it has sent) equals the connection's own counter, which lies between 16384 and
  65535: it is not negative at any frame boundary.
\<close>

theorem receive_window_replenished:
  assumes codec: "\<forall>increment ctx. 49152 \<le> uint increment \<and> uint increment \<le> 16842750 \<longrightarrow>
        (\<exists>bs ctx'. Encode ext (WindowUpdateFrame 0 increment) ctx = Inr (bs, ctx')
           \<and> decode bs = Some (WindowUpdateFrame 0 increment))"
    and op: "\<not> closed (conn c)"
    and r0: "0 \<le> remainingReceiveWindowSize c" and r1: "remainingReceiveWindowSize c \<le> 65535"
    and pv: "peer_receive_window decode c received = remainingReceiveWindowSize c"
    and n: "length frameData < 2 ^ 24"
    and fr: "list_all (\<lambda>f. is_DataFrame f \<and> DataFrame_length f < 2 ^ 24) frames"
  shows "(16384 \<le> remainingReceiveWindowSize c - int (length frameData) \<longrightarrow>
       flowControlForIncomingDataFrame ext c frameData =
         Inr (c\<lparr>remainingReceiveWindowSize :=
                  remainingReceiveWindowSize c - int (length frameData)\<rparr>))
     \<and> (remainingReceiveWindowSize c - int (length frameData) < 16384 \<longrightarrow>
       (\<exists>bs ctx'.
          Encode ext (WindowUpdateFrame 0
            (uint32_of_int64 (65535 - (remainingReceiveWindowSize c - int (length frameData)))))
            (encodingContext c) = Inr (bs, ctx')
          \<and> uint (uint32_of_int64
                (65535 - (remainingReceiveWindowSize c - int (length frameData)))) =
              65535 - (remainingReceiveWindowSize c - int (length frameData))
          \<and> flowControlForIncomingDataFrame ext c frameData =
              Inr (c\<lparr>remainingReceiveWindowSize := 65535, encodingContext := ctx',
                     conn := (conn c)\<lparr>written := written (conn c) @ [bs]\<rparr>\<rparr>)))
     \<and> (\<exists>c'. handleIncomingDataFrames ext c frames = Inr c'
          \<and> remainingReceiveWindowSize c' \<le> 65535
          \<and> (frames = [] \<or> 16384 \<le> remainingReceiveWindowSize c')
          \<and> peer_receive_window decode c'
                (received + int (sum_list (map DataFrame_length frames))) =
              remainingReceiveWindowSize c'
          \<and> 0 \<le> peer_receive_window decode c'
                (received + int (sum_list (map DataFrame_length frames))))"
proof (intro conjI impI)
  assume "16384 \<le> remainingReceiveWindowSize c - int (length frameData)"
  then show "flowControlForIncomingDataFrame ext c frameData =
         Inr (c\<lparr>remainingReceiveWindowSize :=
                  remainingReceiveWindowSize c - int (length frameData)\<rparr>)"
    by (rule flowControl_above_threshold [OF r0 r1 n])
next
  let ?d = "65535 - (remainingReceiveWindowSize c - int (length frameData))"
  assume lt: "remainingReceiveWindowSize c - int (length frameData) < 16384"
  have n': "int (length frameData) < 2 ^ 24"
    using n by (metis of_nat_less_iff of_nat_numeral of_nat_power)
  have u: "uint (uint32_of_int64 ?d) = ?d"
    using r0 r1 n' lt by (intro uint32_of_int64_exact) simp_all
  have "49152 \<le> ?d \<and> ?d \<le> 16842750"
    using r0 n' lt by simp
  with u have "49152 \<le> uint (uint32_of_int64 ?d) \<and> uint (uint32_of_int64 ?d) \<le> 16842750"
    by simp
  with codec obtain bs ctx' where
    e: "Encode ext (WindowUpdateFrame 0 (uint32_of_int64 ?d)) (encodingContext c) = Inr (bs, ctx')"
    by blast
  from e u flowControl_below_threshold [OF r0 r1 n lt op e]
  show "\<exists>bs ctx'.
          Encode ext (WindowUpdateFrame 0 (uint32_of_int64 ?d)) (encodingContext c) = Inr (bs, ctx')
          \<and> uint (uint32_of_int64 ?d) = ?d
          \<and> flowControlForIncomingDataFrame ext c frameData =
              Inr (c\<lparr>remainingReceiveWindowSize := 65535, encodingContext := ctx',
                     conn := (conn c)\<lparr>written := written (conn c) @ [bs]\<rparr>\<rparr>)"
    by blast
next
  from handleIncomingDataFrames_invariant [OF codec op r0 r1 fr]
  obtain c' where r: "handleIncomingDataFrames ext c frames = Inr c'"
    and b: "0 \<le> remainingReceiveWindowSize c'" "remainingReceiveWindowSize c' \<le> 65535"
    and t: "frames = [] \<or> 16384 \<le> remainingReceiveWindowSize c'"
    and acc: "remainingReceiveWindowSize c' - sent_window_increments decode (written (conn c')) =
           remainingReceiveWindowSize c - sent_window_increments decode (written (conn c))
             - int (sum_list (map DataFrame_length frames))"
    by blast
  from pv acc have "peer_receive_window decode c'
      (received + int (sum_list (map DataFrame_length frames))) = remainingReceiveWindowSize c'"
    by (simp add: peer_receive_window_def)
  with r b t show "\<exists>c'. handleIncomingDataFrames ext c frames = Inr c'
          \<and> remainingReceiveWindowSize c' \<le> 65535
          \<and> (frames = [] \<or> 16384 \<le> remainingReceiveWindowSize c')
          \<and> peer_receive_window decode c'
                (received + int (sum_list (map DataFrame_length frames))) =
              remainingReceiveWindowSize c'
          \<and> 0 \<le> peer_receive_window decode c'
                (received + int (sum_list (map DataFrame_length frames)))"
    by auto
qed

theorem receive_window_replenished_witness:
  "flowControlForIncomingDataFrame example_externals example_connection (replicate 16384 0) =
     Inr (example_connection\<lparr>remainingReceiveWindowSize := 49151\<rparr>)
   \<and> (\<exists>bs ctx'.
        Encode example_externals (WindowUpdateFrame 0 49152) [] = Inr (bs, ctx')
        \<and> flowControlForIncomingDataFrame example_externals
            (example_connection\<lparr>remainingReceiveWindowSize := 32767\<rparr>) (replicate 16384 0) =
          Inr (example_connection\<lparr>remainingReceiveWindowSize := 65535, encodingContext := ctx',
                 conn := example_conn\<lparr>written := [bs]\<rparr>\<rparr>))
   \<and> (\<exists>c'. handleIncomingDataFrames example_externals example_connection
          [DataFrame 1 (replicate 16384 0) False, DataFrame 1 (replicate 16384 0) False,
           DataFrame 3 (replicate 16384 0) False, DataFrame 1 (replicate 16384 0) True] = Inr c'
        \<and> 16384 \<le> remainingReceiveWindowSize c'
        \<and> remainingReceiveWindowSize c' \<le> 65535
        \<and> peer_receive_window example_decode c' 65536 = remainingReceiveWindowSize c'
        \<and> 0 \<le> peer_receive_window example_decode c' 65536)"
proof -
  let ?c2 = "example_connection\<lparr>remainingReceiveWindowSize := 32767\<rparr>"
  let ?frames = "[DataFrame 1 (replicate 16384 0) False, DataFrame 1 (replicate 16384 0) False,
           DataFrame 3 (replicate 16384 0) False, DataFrame 1 (replicate 16384 0) True]"
  note defs = example_connection_def newConnection_def example_conn_def
  have op: "\<not> closed (conn example_connection)" "\<not> closed (conn ?c2)"
    by (simp_all add: defs)
  have r: "0 \<le> remainingReceiveWindowSize example_connection"
    "remainingReceiveWindowSize example_connection \<le> 65535"
    "0 \<le> remainingReceiveWindowSize ?c2" "remainingReceiveWindowSize ?c2 \<le> 65535"
    by (simp_all add: defs)
  have pv: "peer_receive_window example_decode example_connection 0 =
      remainingReceiveWindowSize example_connection"
    "peer_receive_window example_decode ?c2 32768 = remainingReceiveWindowSize ?c2"
    by (simp_all add: defs peer_receive_window_def sent_window_increments_def)
  have n: "length (replicate 16384 (0::byte)) < 2 ^ 24"
    by simp
  have fr: "list_all (\<lambda>f. is_DataFrame f \<and> DataFrame_length f < 2 ^ 24) ?frames"
    by simp
  from example_codec_roundtrip
  have codec: "\<forall>increment ctx. 49152 \<le> uint increment \<and> uint increment \<le> 16842750 \<longrightarrow>
        (\<exists>bs ctx'. Encode example_externals (WindowUpdateFrame 0 increment) ctx = Inr (bs, ctx')
           \<and> example_decode bs = Some (WindowUpdateFrame 0 increment))"
    by blast
  note A = receive_window_replenished [OF codec op(1) r(1,2) pv(1) n fr]
  note B = receive_window_replenished [OF codec op(2) r(3,4) pv(2) n fr]
  have rw: "remainingReceiveWindowSize example_connection = 65535"
    "encodingContext example_connection = []" "conn example_connection = example_conn"
    "written example_conn = []"
    by (simp_all add: defs)
  have "16384 \<le> remainingReceiveWindowSize example_connection - int (length (replicate 16384 (0::byte)))"
    by (simp add: rw)
  with A have "flowControlForIncomingDataFrame example_externals example_connection
      (replicate 16384 0) = Inr (example_connection\<lparr>remainingReceiveWindowSize :=
        remainingReceiveWindowSize example_connection - int (length (replicate 16384 (0::byte)))\<rparr>)"
    by blast
  then have 1: "flowControlForIncomingDataFrame example_externals example_connection
      (replicate 16384 0) = Inr (example_connection\<lparr>remainingReceiveWindowSize := 49151\<rparr>)"
    by (simp add: rw)
  have "remainingReceiveWindowSize ?c2 - int (length (replicate 16384 (0::byte))) < 16384"
    by simp
  with B obtain bs ctx' where
    "Encode example_externals (WindowUpdateFrame 0 (uint32_of_int64
        (65535 - (remainingReceiveWindowSize ?c2 - int (length (replicate 16384 (0::byte)))))))
        (encodingContext ?c2) = Inr (bs, ctx')"
    "flowControlForIncomingDataFrame example_externals ?c2 (replicate 16384 0) =
       Inr (?c2\<lparr>remainingReceiveWindowSize := 65535, encodingContext := ctx',
              conn := (conn ?c2)\<lparr>written := written (conn ?c2) @ [bs]\<rparr>\<rparr>)"
    by blast
  then have 2: "\<exists>bs ctx'.
        Encode example_externals (WindowUpdateFrame 0 49152) [] = Inr (bs, ctx')
        \<and> flowControlForIncomingDataFrame example_externals ?c2 (replicate 16384 0) =
          Inr (example_connection\<lparr>remainingReceiveWindowSize := 65535, encodingContext := ctx',
                 conn := example_conn\<lparr>written := [bs]\<rparr>\<rparr>)"
    by (simp add: rw uint32_of_int64_def)
  from A obtain c' where
    "handleIncomingDataFrames example_externals example_connection ?frames = Inr c'"
    "remainingReceiveWindowSize c' \<le> 65535"
    "?frames = [] \<or> 16384 \<le> remainingReceiveWindowSize c'"
    "peer_receive_window example_decode c' (0 + int (sum_list (map DataFrame_length ?frames))) =
       remainingReceiveWindowSize c'"
    "0 \<le> peer_receive_window example_decode c' (0 + int (sum_list (map DataFrame_length ?frames)))"
    by blast
  then have 3: "\<exists>c'. handleIncomingDataFrames example_externals example_connection ?frames = Inr c'
        \<and> 16384 \<le> remainingReceiveWindowSize c'
        \<and> remainingReceiveWindowSize c' \<le> 65535
        \<and> peer_receive_window example_decode c' 65536 = remainingReceiveWindowSize c'
        \<and> 0 \<le> peer_receive_window example_decode c' 65536"
    by (intro exI [of _ c']) simp
  from 1 2 3 show ?thesis
    by (intro conjI)
qed

text \<open>
  The claim as stated fails: after the peer has announced a maximum frame size of 32768,
  two DATA frames of 16384 bytes take the window from 65535 to 49151 and to 32767, which
  is below one peer maximum frame size, and no WINDOW_UPDATE is written (only the window
  changes).
\<close>

theorem receive_window_threshold_counterexample:
  "handleFrameForConnection example_externals example_connection
     (SettingsFrame 0 False [SETTINGS_MAX_FRAME_SIZE \<mapsto> 32768]) =
   Inr (example_connection\<lparr>settings := handleSettingsFrame (settings example_connection)
          [SETTINGS_MAX_FRAME_SIZE \<mapsto> 32768]\<rparr>)
   \<and> flowControlForIncomingDataFrame example_externals
     (example_connection\<lparr>settings := handleSettingsFrame (settings example_connection)
          [SETTINGS_MAX_FRAME_SIZE \<mapsto> 32768]\<rparr>)
     (replicate 16384 0) =
   Inr (example_connection\<lparr>settings := handleSettingsFrame (settings example_connection)
          [SETTINGS_MAX_FRAME_SIZE \<mapsto> 32768],
        remainingReceiveWindowSize := 49151\<rparr>)
   \<and> flowControlForIncomingDataFrame example_externals
     (example_connection\<lparr>settings := handleSettingsFrame (settings example_connection)
          [SETTINGS_MAX_FRAME_SIZE \<mapsto> 32768],
        remainingReceiveWindowSize := 49151\<rparr>)
     (replicate 16384 0) =
   Inr (example_connection\<lparr>settings := handleSettingsFrame (settings example_connection)
          [SETTINGS_MAX_FRAME_SIZE \<mapsto> 32768],
        remainingReceiveWindowSize := 32767\<rparr>)
   \<and> (32767::int) < uint (serverFrameSize (handleSettingsFrame (settings example_connection)
          [SETTINGS_MAX_FRAME_SIZE \<mapsto> 32768]))"
  by (simp add: flowControlForIncomingDataFrame_def Let_def int64_def handleSettingsFrame_def
      IsSet_def Get_def example_connection_def newConnection_def handleFrameForConnection_def)

section \<open>Requests: HEADERS and DATA frames\<close>


lemma fragment_body_Nil [simp]: "fragment_body sid k [] = []"
  by (simp add: fragment_body.simps)

lemma fragment_body_concat:
  "0 < k \<Longrightarrow> concat (map Frame_data (fragment_body sid k body)) = body"
proof (induction sid k body rule: fragment_body.induct)
  case (1 sid k body)
  show ?case
  proof (cases "body = []")
    case True
    then show ?thesis by simp
  next
    case False
    with 1 show ?thesis
      by (subst fragment_body.simps) simp
  qed
qed

lemma fragment_body_frames:
  "list_all (\<lambda>f. is_DataFrame f \<and> GetStreamId f = sid \<and> 0 < DataFrame_length f
      \<and> DataFrame_length f \<le> k) (fragment_body sid k body)"
proof (induction sid k body rule: fragment_body.induct)
  case (1 sid k body)
  show ?case
  proof (cases "k = 0 \<or> body = []")
    case True
    then show ?thesis by (subst fragment_body.simps) simp
  next
    case False
    with 1 show ?thesis
      by (subst fragment_body.simps) simp
  qed
qed

lemma fragment_body_endStream:
  "0 < k \<Longrightarrow> body \<noteq> [] \<Longrightarrow>
   map Frame_endStream (fragment_body sid k body) =
     replicate (length (fragment_body sid k body) - 1) False @ [True]"
proof (induction sid k body rule: fragment_body.induct)
  case (1 sid k body)
  show ?case
  proof (cases "length body \<le> k")
    case True
    with 1(2,3) show ?thesis
      by (subst (1 2) fragment_body.simps) simp
  next
    case False
    then have d: "drop k body \<noteq> []" by simp
    then have ne: "fragment_body sid k (drop k body) \<noteq> []"
      using 1(2) by (subst fragment_body.simps) simp
    from 1(1) [OF _ 1(2) d] 1(2,3)
    have ih: "map Frame_endStream (fragment_body sid k (drop k body)) =
        replicate (length (fragment_body sid k (drop k body)) - 1) False @ [True]"
      by simp
    from ne have "length (fragment_body sid k (drop k body)) =
        Suc (length (fragment_body sid k (drop k body)) - 1)"
      by (cases "fragment_body sid k (drop k body)") simp_all
    then have "replicate (length (fragment_body sid k (drop k body))) False =
        False # replicate (length (fragment_body sid k (drop k body)) - 1) False"
      by (metis replicate_Suc)
    with False 1(2,3) ih show ?thesis
      by (subst (1 2) fragment_body.simps) simp
  qed
qed

lemma unat_of_nat32: "m < 2 ^ 32 \<Longrightarrow> unat (of_nat m :: uint32) = m"
  by (simp add: unat_of_nat take_bit_nat_eq_self)

lemma sendDataFrames_loop_refines:
  fixes chunkSize :: uint32
  assumes k: "0 < unat chunkSize"
    and cover: "length body \<le> n * unat chunkSize"
    and nowrap: "n * unat chunkSize < 2 ^ 32"
  shows "m * unat chunkSize < length body + unat chunkSize \<Longrightarrow>
     sendDataFrames_loop chunkSize (word_of_nat (length body)) body sid (of_nat m) c =
       Some (Inr (fold (stream_SendFrame sid)
         (fragment_body sid (unat chunkSize) (drop (m * unat chunkSize) body)) c))"
proof (induction "length body + unat chunkSize - m * unat chunkSize" arbitrary: m c
    rule: less_induct)
  case less
  let ?k = "unat chunkSize"
  let ?L = "length body"
  have L: "?L < 2 ^ 32" using cover nowrap by simp
  from cover have "length body + ?k \<le> Suc n * ?k" by simp
  with less.prems have "m * ?k < Suc n * ?k" by (rule less_le_trans)
  then have "m < Suc n" by (simp only: mult_less_cancel2)
  then have "m \<le> n" by simp
  then have "m * ?k \<le> n * ?k" by (rule mult_le_mono1)
  then have mk: "m * ?k < 2 ^ 32" using nowrap by (rule le_less_trans)
  have cs: "(of_nat ?k :: uint32) = chunkSize" by simp
  have lo: "unat (of_nat m * chunkSize) = m * ?k"
  proof -
    have "of_nat m * chunkSize = (of_nat (m * ?k) :: uint32)" by simp
    with mk show ?thesis by (simp only: unat_of_nat32)
  qed
  have tot: "unat (word_of_nat ?L :: uint32) = ?L"
    using L by (rule unat_of_nat32)
  show ?case
  proof (cases "m * ?k < ?L")
    case False
    then have "\<not> (of_nat m * chunkSize < (word_of_nat ?L :: uint32))"
      by (simp add: word_less_nat_alt lo tot)
    with False show ?thesis
      by (subst sendDataFrames_loop.simps) (simp add: fragment_body.simps)
  next
    case True
    then have c1: "of_nat m * chunkSize < (word_of_nat ?L :: uint32)"
      by (simp add: word_less_nat_alt lo tot)
    from True cover have "m * ?k < n * ?k" by (rule less_le_trans)
    then have "m < n" by (simp only: mult_less_cancel2)
    then have "Suc m \<le> n" by simp
    then have "Suc m * ?k \<le> n * ?k" by (rule mult_le_mono1)
    then have smk: "Suc m * ?k < 2 ^ 32" using nowrap by (rule le_less_trans)
    have hi: "unat ((of_nat m + 1) * chunkSize) = Suc m * ?k"
    proof -
      have "(of_nat m + 1) * chunkSize = (of_nat (Suc m * ?k) :: uint32)"
        by (simp add: algebra_simps)
      with smk show ?thesis by (simp only: unat_of_nat32)
    qed
    have mn: "unat (min_uint32 ((of_nat m + 1) * chunkSize) (word_of_nat ?L)) = min (Suc m * ?k) ?L"
      by (simp add: min_uint32_def word_less_nat_alt hi tot)
    have sl: "bytes_slice body (of_nat m * chunkSize)
        (min_uint32 ((of_nat m + 1) * chunkSize) (word_of_nat ?L)) =
        Inr (take ?k (drop (m * ?k) body))"
    proof -
      have "take (min (Suc m * ?k) ?L - m * ?k) (drop (m * ?k) body) = take ?k (drop (m * ?k) body)"
        by (cases "Suc m * ?k \<le> ?L") (simp_all add: min_def)
      then show ?thesis
        using True by (simp add: bytes_slice_def lo mn)
    qed
    have last: "((word_of_nat ?L :: uint32) \<le> (of_nat m + 1) * chunkSize) =
        (length (drop (m * ?k) body) \<le> ?k)"
      by (auto simp: word_le_nat_alt hi tot)
    have next_m: "(of_nat m + 1 :: uint32) = of_nat (Suc m)" by simp
    have dec: "length body + ?k - Suc m * ?k < length body + ?k - m * ?k"
      using True k by simp
    have pre: "Suc m * ?k < length body + ?k"
      using True by simp
    have ne: "drop (m * ?k) body \<noteq> []" using True by simp
    have dd: "drop ?k (drop (m * ?k) body) = drop (Suc m * ?k) body"
      by (simp add: add.commute)
    have unfold: "fragment_body sid ?k (drop (m * ?k) body) =
        DataFrame sid (take ?k (drop (m * ?k) body)) (length (drop (m * ?k) body) \<le> ?k)
          # fragment_body sid ?k (drop (Suc m * ?k) body)"
      using k ne by (subst fragment_body.simps) (simp only: dd, simp)
    have step: "sendDataFrames_loop chunkSize (word_of_nat ?L) body sid (of_nat m) c =
        sendDataFrames_loop chunkSize (word_of_nat ?L) body sid (of_nat m + 1)
          (stream_SendFrame sid
             (DataFrame sid (take ?k (drop (m * ?k) body)) (length (drop (m * ?k) body) \<le> ?k)) c)"
      by (subst sendDataFrames_loop.simps) (simp only: c1 if_True sl sum.case last)
    have rec: "sendDataFrames_loop chunkSize (word_of_nat ?L) body sid (of_nat (Suc m)) c' =
        Some (Inr (fold (stream_SendFrame sid)
          (fragment_body sid ?k (drop (Suc m * ?k) body)) c'))" for c'
      by (rule less.hyps [OF dec pre])
    show ?thesis
      unfolding step next_m rec unfold by simp
  qed
qed

lemma fold_stream_SendFrame:
  "map_of (streams c) sid = Some s \<Longrightarrow>
   fold (stream_SendFrame sid) frames c =
     c\<lparr>streams := AList.update sid (s\<lparr>sentFrames := sentFrames s @ frames\<rparr>) (streams c)\<rparr>"
proof (induction frames arbitrary: c s)
  case Nil
  then have "AList.update sid s (streams c) = streams c"
    by (simp add: update_triv)
  then show ?case by simp
next
  case (Cons frame frames)
  let ?c1 = "stream_SendFrame sid frame c"
  let ?s1 = "s\<lparr>sentFrames := sentFrames s @ [frame]\<rparr>"
  from Cons.prems have c1: "?c1 = c\<lparr>streams := AList.update sid ?s1 (streams c)\<rparr>"
    by (simp add: stream_SendFrame_def on_stream_def)
  then have "map_of (streams ?c1) sid = Some ?s1"
    by (simp add: update_conv')
  from Cons.IH [OF this] c1 show ?case
    by simp
qed

lemma sendDataFrames_loop_never_returns:
  assumes "sendDataFrames_loop chunkSize total32 bs sid n c = Some y"
  shows "\<not> (chunkSize = 0 \<and> 0 < total32)"
proof (rule sendDataFrames_loop.raw_induct
    [where P = "\<lambda>cs tot bs sid n c y. \<not> (cs = 0 \<and> 0 < tot)", OF _ assms])
  fix f cs tot bs' sid' n' c' y'
  assume IH: "\<And>cs tot bs sid n c y. f cs tot bs sid n c = Some y \<Longrightarrow> \<not> (cs = 0 \<and> 0 < tot)"
    and body: "(if n' * cs < tot
      then case bytes_slice bs' (n' * cs) (min_uint32 ((n' + 1) * cs) tot) of
             Inl p \<Rightarrow> Some (Inl p)
           | Inr nextChunk \<Rightarrow>
               f cs tot bs' sid' (n' + 1)
                 (stream_SendFrame sid' (DataFrame sid' nextChunk (tot \<le> (n' + 1) * cs)) c')
      else Some (Inr c')) = Some y'"
  show "\<not> (cs = 0 \<and> 0 < tot)"
  proof
    assume z: "cs = 0 \<and> 0 < tot"
    with body have "f cs tot bs' sid' (n' + 1)
        (stream_SendFrame sid' (DataFrame sid' [] (tot \<le> (n' + 1) * cs)) c') = Some y'"
      by (simp add: bytes_slice_def min_uint32_def)
    from IH [OF this] z show False
      by simp
  qed
qed

lemma sendDataFrames_zero_chunk_size:
  "serverFrameSize (settings c) = 0 \<Longrightarrow> bs \<noteq> [] \<Longrightarrow> length bs < 2 ^ 32 \<Longrightarrow>
   sendDataFrames c bs sid = None"
proof -
  assume z: "serverFrameSize (settings c) = 0" and ne: "bs \<noteq> []" and l: "length bs < 2 ^ 32"
  from l have "unat (word_of_nat (length bs) :: uint32) = length bs"
    by (rule unat_of_nat32)
  with ne have "0 < (word_of_nat (length bs) :: uint32)"
    by (simp add: word_less_nat_alt)
  with z sendDataFrames_loop_never_returns
    [of "serverFrameSize (settings c)" "word_of_nat (length bs)" bs sid 0 c]
  show ?thesis
    unfolding sendDataFrames_def by (cases "sendDataFrames_loop (serverFrameSize (settings c))
      (word_of_nat (length bs)) bs sid 0 c") simp_all
qed

lemma sendDataFrames_fragments:
  assumes "serverFrameSize (settings c) \<noteq> 0"
    and "length body \<le> n * unat (serverFrameSize (settings c))"
    and "n * unat (serverFrameSize (settings c)) < 2 ^ 32"
    and "map_of (streams c) sid = Some s"
  shows "sendDataFrames c body sid =
     Some (Inr (c\<lparr>streams := AList.update sid
        (s\<lparr>sentFrames := sentFrames s @
             fragment_body sid (unat (serverFrameSize (settings c))) body\<rparr>) (streams c)\<rparr>))"
proof -
  from assms(1) have k: "0 < unat (serverFrameSize (settings c))"
    by (simp add: unat_gt_0)
  from sendDataFrames_loop_refines [OF k assms(2,3), of 0 sid c] k
  have "sendDataFrames c body sid =
      Some (Inr (fold (stream_SendFrame sid)
        (fragment_body sid (unat (serverFrameSize (settings c))) body) c))"
    by (simp add: sendDataFrames_def)
  with assms(4) show ?thesis
    by (simp add: fold_stream_SendFrame)
qed

text \<open>
  What \<open>doRequest\<close> does with a body that it fragments. A request whose body is nil gets
  HEADERS with END_STREAM. For a request with a non-empty body, let some multiple of the
  peer's maximum frame size be at least the body length and below \<open>2^32\<close> (the loop
  counts in \<^verbatim>\<open>uint32\<close>; this is the body length rounded up to a multiple of the frame
  size). Then \<open>doRequest\<close> returns, and the stream it allocated was handed the HEADERS
  frame without END_STREAM followed by the DATA frames of \<open>fragment_body\<close>: at least one
  frame, all DATA frames of that stream with at most the maximum frame size of payload,
  the payloads concatenate to the body, and END_STREAM is set on the last frame and on
  no other.
\<close>

lemma doRequest_fragments_body:
  "(reqData req = None \<longrightarrow>
      (\<exists>c' s. doRequest c req = Some (Inr c')
         \<and> map_of (streams c') (nextStreamId c) = Some s
         \<and> sentFrames s = [HeadersFrame (nextStreamId c) (reqHeaders req) True]))
   \<and> (reqData req = Some body \<and> body \<noteq> []
       \<and> length body \<le> n * unat (serverFrameSize (settings c))
       \<and> n * unat (serverFrameSize (settings c)) < 2 ^ 32 \<longrightarrow>
      (\<exists>c' s frames. doRequest c req = Some (Inr c')
         \<and> map_of (streams c') (nextStreamId c) = Some s
         \<and> sentFrames s = HeadersFrame (nextStreamId c) (reqHeaders req) False # frames
         \<and> frames = fragment_body (nextStreamId c) (unat (serverFrameSize (settings c))) body
         \<and> frames \<noteq> []
         \<and> list_all (\<lambda>f. is_DataFrame f \<and> GetStreamId f = nextStreamId c
               \<and> DataFrame_length f \<le> unat (serverFrameSize (settings c))) frames
         \<and> concat (map Frame_data frames) = body
         \<and> map Frame_endStream frames = replicate (length frames - 1) False @ [True]))"
proof (intro conjI impI)
  assume "reqData req = None"
  then show "\<exists>c' s. doRequest c req = Some (Inr c')
         \<and> map_of (streams c') (nextStreamId c) = Some s
         \<and> sentFrames s = [HeadersFrame (nextStreamId c) (reqHeaders req) True]"
    by (simp add: doRequest_def newStream_def stream_SendFrame_def on_stream_def update_conv'
        stream_New_def)
next
  let ?sid = "nextStreamId c"
  let ?k = "unat (serverFrameSize (settings c))"
  let ?frames = "fragment_body ?sid ?k body"
  assume a: "reqData req = Some body \<and> body \<noteq> []
       \<and> length body \<le> n * unat (serverFrameSize (settings c))
       \<and> n * unat (serverFrameSize (settings c)) < 2 ^ 32"
  then have k: "0 < ?k" by (cases "?k = 0") simp_all
  then have k': "serverFrameSize (settings c) \<noteq> 0" by (simp add: unat_gt_0)
  define s0 where "s0 = stream_New ?sid (Some req)
      (initialSendWindowSizeForNewStreams (settings c))
      (initialReceiveWindowSizeForNewStreams (settings c))"
  define c1 where "c1 = c\<lparr>streams := AList.update ?sid s0 (streams c)\<rparr>"
  define s1 where "s1 = s0\<lparr>sentFrames := [HeadersFrame ?sid (reqHeaders req) False]\<rparr>"
  define c2 where "c2 = c\<lparr>streams := AList.update ?sid s1 (streams c)\<rparr>"
  have nw: "newStream c req = (c1, ?sid)"
    by (simp add: newStream_def c1_def s0_def)
  have h: "stream_SendFrame ?sid (HeadersFrame ?sid (reqHeaders req) False) c1 = c2"
    by (simp add: stream_SendFrame_def on_stream_def c1_def c2_def s1_def update_conv' s0_def
        stream_New_def)
  have m2: "map_of (streams c2) ?sid = Some s1" and st2: "settings c2 = settings c"
    by (simp_all add: c2_def update_conv')
  from a k' st2 have "sendDataFrames c2 body ?sid =
     Some (Inr (c2\<lparr>streams := AList.update ?sid
        (s1\<lparr>sentFrames := sentFrames s1 @ ?frames\<rparr>) (streams c2)\<rparr>))"
    using sendDataFrames_fragments [of c2 body n ?sid s1] m2 by simp
  with a nw h have d: "doRequest c req =
     Some (Inr (c2\<lparr>streams := AList.update ?sid
        (s1\<lparr>sentFrames := sentFrames s1 @ ?frames\<rparr>) (streams c2)\<rparr>))"
    by (simp add: doRequest_def)
  have ne: "?frames \<noteq> []"
    using a k by (subst fragment_body.simps) simp
  have fr: "list_all (\<lambda>f. is_DataFrame f \<and> GetStreamId f = ?sid \<and> DataFrame_length f \<le> ?k) ?frames"
    using fragment_body_frames [of ?sid ?k body] by (simp add: list_all_iff)
  have cc: "concat (map Frame_data ?frames) = body"
    using k by (rule fragment_body_concat)
  have es: "map Frame_endStream ?frames = replicate (length ?frames - 1) False @ [True]"
    using k a by (intro fragment_body_endStream) simp_all
  show "\<exists>c' s frames. doRequest c req = Some (Inr c')
         \<and> map_of (streams c') ?sid = Some s
         \<and> sentFrames s = HeadersFrame ?sid (reqHeaders req) False # frames
         \<and> frames = ?frames
         \<and> frames \<noteq> []
         \<and> list_all (\<lambda>f. is_DataFrame f \<and> GetStreamId f = ?sid \<and> DataFrame_length f \<le> ?k) frames
         \<and> concat (map Frame_data frames) = body
         \<and> map Frame_endStream frames = replicate (length frames - 1) False @ [True]"
    using d ne fr cc es
    by (intro exI [of _ "c2\<lparr>streams := AList.update ?sid
        (s1\<lparr>sentFrames := sentFrames s1 @ ?frames\<rparr>) (streams c2)\<rparr>"]
        exI [of _ "s1\<lparr>sentFrames := sentFrames s1 @ ?frames\<rparr>"] exI [of _ ?frames])
      (simp add: update_conv' s1_def)
qed

lemma fragment_example:
  "fragment_body 1 4 [65, 66, 67, 68, 69, 70, 71, 72] =
     [DataFrame 1 [65, 66, 67, 68] False, DataFrame 1 [69, 70, 71, 72] True]"
  by (simp add: fragment_body.simps)

lemma doRequest_fragments_body_example:
  "(\<exists>c' s. doRequest example_connection
          \<lparr>reqHeaders = [\<lparr>Name = '':method'', Value = ''GET'', Sensitive = False\<rparr>],
           reqData = None\<rparr> = Some (Inr c')
        \<and> map_of (streams c') 1 = Some s
        \<and> sentFrames s =
            [HeadersFrame 1 [\<lparr>Name = '':method'', Value = ''GET'', Sensitive = False\<rparr>] True])
   \<and> (\<exists>c' s. doRequest
          (example_connection\<lparr>settings := (settings example_connection)\<lparr>serverFrameSize := 4\<rparr>\<rparr>)
          \<lparr>reqHeaders = [\<lparr>Name = '':method'', Value = ''POST'', Sensitive = False\<rparr>],
           reqData = Some [65, 66, 67, 68, 69, 70, 71, 72]\<rparr> = Some (Inr c')
        \<and> map_of (streams c') 1 = Some s
        \<and> sentFrames s =
            [HeadersFrame 1 [\<lparr>Name = '':method'', Value = ''POST'', Sensitive = False\<rparr>] False,
             DataFrame 1 [65, 66, 67, 68] False, DataFrame 1 [69, 70, 71, 72] True])
   \<and> (\<exists>c' s. doRequest
          (example_connection\<lparr>settings :=
             (settings example_connection)\<lparr>serverFrameSize := 4294967295\<rparr>\<rparr>)
          \<lparr>reqHeaders = [], reqData = Some [65, 66, 67]\<rparr> = Some (Inr c')
        \<and> map_of (streams c') 1 = Some s
        \<and> sentFrames s = [HeadersFrame 1 [] False, DataFrame 1 [65, 66, 67] True])"
proof -
  let ?get = "\<lparr>reqHeaders = [\<lparr>Name = '':method'', Value = ''GET'', Sensitive = False\<rparr>],
           reqData = None\<rparr>"
  let ?post = "\<lparr>reqHeaders = [\<lparr>Name = '':method'', Value = ''POST'', Sensitive = False\<rparr>],
           reqData = Some [65, 66, 67, 68, 69, 70, 71, 72 :: byte]\<rparr>"
  let ?put = "\<lparr>reqHeaders = [], reqData = Some [65, 66, 67 :: byte]\<rparr>"
  let ?c4 = "example_connection\<lparr>settings := (settings example_connection)\<lparr>serverFrameSize := 4\<rparr>\<rparr>"
  let ?cm = "example_connection\<lparr>settings :=
             (settings example_connection)\<lparr>serverFrameSize := 4294967295\<rparr>\<rparr>"
  have id: "nextStreamId example_connection = 1" "nextStreamId ?c4 = 1" "nextStreamId ?cm = 1"
    by (simp_all add: nextStreamId_def streamIdsInUse_def example_connection_def newConnection_def)
  have h1: "reqData ?get = None"
    by simp
  have h2: "reqData ?post = Some [65, 66, 67, 68, 69, 70, 71, 72]
      \<and> [65, 66, 67, 68, 69, 70, 71, 72 :: byte] \<noteq> []
      \<and> length [65, 66, 67, 68, 69, 70, 71, 72 :: byte] \<le> 2 * unat (serverFrameSize (settings ?c4))
      \<and> 2 * unat (serverFrameSize (settings ?c4)) < 2 ^ 32"
    by simp
  have h3: "reqData ?put = Some [65, 66, 67] \<and> [65, 66, 67 :: byte] \<noteq> []
      \<and> length [65, 66, 67 :: byte] \<le> 1 * unat (serverFrameSize (settings ?cm))
      \<and> 1 * unat (serverFrameSize (settings ?cm)) < 2 ^ 32"
    by simp
  note A = doRequest_fragments_body [where req = ?get and c = example_connection]
  note B = doRequest_fragments_body [where req = ?post and c = ?c4
      and body = "[65, 66, 67, 68, 69, 70, 71, 72]" and n = 2]
  note C = doRequest_fragments_body [where req = ?put and c = ?cm
      and body = "[65, 66, 67]" and n = 1]
  from A h1 have 1: "\<exists>c' s. doRequest example_connection ?get = Some (Inr c')
        \<and> map_of (streams c') 1 = Some s
        \<and> sentFrames s =
            [HeadersFrame 1 [\<lparr>Name = '':method'', Value = ''GET'', Sensitive = False\<rparr>] True]"
    by (simp add: id)
  from B h2 obtain c' s where
    "doRequest ?c4 ?post = Some (Inr c')"
    "map_of (streams c') (nextStreamId ?c4) = Some s"
    "sentFrames s = HeadersFrame (nextStreamId ?c4) (reqHeaders ?post) False #
        fragment_body (nextStreamId ?c4) (unat (serverFrameSize (settings ?c4)))
          [65, 66, 67, 68, 69, 70, 71, 72]"
    by blast
  then have 2: "\<exists>c' s. doRequest ?c4 ?post = Some (Inr c')
        \<and> map_of (streams c') 1 = Some s
        \<and> sentFrames s =
            [HeadersFrame 1 [\<lparr>Name = '':method'', Value = ''POST'', Sensitive = False\<rparr>] False,
             DataFrame 1 [65, 66, 67, 68] False, DataFrame 1 [69, 70, 71, 72] True]"
    by (intro exI [of _ c'] exI [of _ s]) (simp add: id fragment_example)
  from C h3 obtain c' s where
    "doRequest ?cm ?put = Some (Inr c')"
    "map_of (streams c') (nextStreamId ?cm) = Some s"
    "sentFrames s = HeadersFrame (nextStreamId ?cm) (reqHeaders ?put) False #
        fragment_body (nextStreamId ?cm) (unat (serverFrameSize (settings ?cm))) [65, 66, 67]"
    by blast
  then have 3: "\<exists>c' s. doRequest ?cm ?put = Some (Inr c')
        \<and> map_of (streams c') 1 = Some s
        \<and> sentFrames s = [HeadersFrame 1 [] False, DataFrame 1 [65, 66, 67] True]"
    by (intro exI [of _ c'] exI [of _ s]) (simp add: id fragment_body.simps)
  from 1 2 3 show ?thesis
    by (intro conjI)
qed

text \<open>
  Claim C6. The claim says that the HEADERS frame has END_STREAM exactly when the request
  has no body, and that the DATA frames of a body carry all of it, the last one with
  END_STREAM. In the code the flag of the HEADERS frame is \<^verbatim>\<open>GetData() == nil\<close>, and the
  loop runs while \<^verbatim>\<open>nChunksSent*chunkSize < uint32(len(data))\<close>. For a body that is empty
  but not nil (\<^verbatim>\<open>[]byte{}\<close>), on any connection, the stream is handed HEADERS without
  END_STREAM and the loop does not run: no frame with END_STREAM is ever sent. The same
  happens for a body of \<open>2^32\<close> bytes, whose length is 0 as a \<^verbatim>\<open>uint32\<close>: HEADERS without
  END_STREAM and no DATA frame at all.
\<close>

theorem doRequest_sends_no_END_STREAM:
  "doRequest c \<lparr>reqHeaders = headers, reqData = Some []\<rparr> =
     Some (Inr (c\<lparr>streams := AList.update (nextStreamId c)
        ((stream_New (nextStreamId c) (Some \<lparr>reqHeaders = headers, reqData = Some []\<rparr>)
            (initialSendWindowSizeForNewStreams (settings c))
            (initialReceiveWindowSizeForNewStreams (settings c)))
           \<lparr>sentFrames := [HeadersFrame (nextStreamId c) headers False]\<rparr>)
        (streams c)\<rparr>))
   \<and> doRequest example_connection \<lparr>reqHeaders = [], reqData = Some []\<rparr> =
     Some (Inr (example_connection\<lparr>streams :=
        [(1, (stream_New 1 (Some \<lparr>reqHeaders = [], reqData = Some []\<rparr>) 65535 65535)
               \<lparr>sentFrames := [HeadersFrame 1 [] False]\<rparr>)]\<rparr>))
   \<and> doRequest example_connection \<lparr>reqHeaders = [], reqData = Some (replicate 4294967296 0)\<rparr> =
     Some (Inr (example_connection\<lparr>streams :=
        [(1, (stream_New 1 (Some \<lparr>reqHeaders = [], reqData = Some (replicate 4294967296 0)\<rparr>)
                65535 65535)
               \<lparr>sentFrames := [HeadersFrame 1 [] False]\<rparr>)]\<rparr>))
   \<and> length (replicate 4294967296 (0::byte)) = 4294967296"
proof (intro conjI)
  show "doRequest c \<lparr>reqHeaders = headers, reqData = Some []\<rparr> =
     Some (Inr (c\<lparr>streams := AList.update (nextStreamId c)
        ((stream_New (nextStreamId c) (Some \<lparr>reqHeaders = headers, reqData = Some []\<rparr>)
            (initialSendWindowSizeForNewStreams (settings c))
            (initialReceiveWindowSizeForNewStreams (settings c)))
           \<lparr>sentFrames := [HeadersFrame (nextStreamId c) headers False]\<rparr>)
        (streams c)\<rparr>))"
    by (simp add: doRequest_def newStream_def stream_SendFrame_def on_stream_def update_conv'
        stream_New_def sendDataFrames_def sendDataFrames_loop.simps)
next
  show "doRequest example_connection \<lparr>reqHeaders = [], reqData = Some []\<rparr> =
     Some (Inr (example_connection\<lparr>streams :=
        [(1, (stream_New 1 (Some \<lparr>reqHeaders = [], reqData = Some []\<rparr>) 65535 65535)
               \<lparr>sentFrames := [HeadersFrame 1 [] False]\<rparr>)]\<rparr>))"
    by (simp add: doRequest_def newStream_def nextStreamId_def streamIdsInUse_def
        example_connection_def newConnection_def sendDataFrames_def stream_SendFrame_def
        on_stream_def sendDataFrames_loop.simps stream_New_def)
next
  show "doRequest example_connection \<lparr>reqHeaders = [], reqData = Some (replicate 4294967296 0)\<rparr> =
     Some (Inr (example_connection\<lparr>streams :=
        [(1, (stream_New 1 (Some \<lparr>reqHeaders = [], reqData = Some (replicate 4294967296 0)\<rparr>)
                65535 65535)
               \<lparr>sentFrames := [HeadersFrame 1 [] False]\<rparr>)]\<rparr>))"
    apply (simp add: doRequest_def newStream_def nextStreamId_def streamIdsInUse_def
        example_connection_def newConnection_def sendDataFrames_def stream_SendFrame_def on_stream_def)
    apply (subst sendDataFrames_loop.simps)
    apply (simp add: stream_New_def)
    done
next
  show "length (replicate 4294967296 (0::byte)) = 4294967296"
    by simp
qed

section \<open>Stream ids when the map holds an odd id\<close>

lemma fold_odd_ids:
  "fold (\<lambda>(id, _) ids. if id mod 2 = 1 then ids @ [id] else ids) xs acc =
     acc @ filter (\<lambda>id. id mod 2 = 1) (map fst xs)"
  by (induction xs arbitrary: acc) (auto split: prod.splits)

lemma streamIdsInUse_eq:
  "streamIdsInUse c =
     replicate (length (streams c)) 0 @ filter (\<lambda>id. id mod 2 = 1) (map fst (streams c))"
  by (simp add: streamIdsInUse_def fold_odd_ids)

lemma max_uint32s_Max:
  assumes "numbers \<noteq> []"
  shows "max_uint32s numbers = Max (set numbers)"
proof -
  have f: "(\<lambda>n result :: uint32. if n > result then n else result) = max"
    by (intro ext) (simp add: max_def not_le [symmetric])
  from assms obtain x xs where n: "numbers = x # xs"
    by (cases numbers) auto
  have "fold max (x # xs) x = fold max xs x"
    by simp
  also have "\<dots> = Max (set (x # xs))"
    by (rule Max.set_eq_fold [symmetric])
  finally show ?thesis
    using assms by (simp add: max_uint32s_def f n)
qed

lemma uint32_add_2_less:
  fixes x :: uint32
  assumes "x < 2 ^ 31"
  shows "x < x + 2"
proof -
  from assms have u: "unat x < 2 ^ 31"
    by (simp add: word_less_nat_alt)
  then have "unat (x + 2) = unat x + 2"
    by (simp add: unat_word_ariths)
  then show ?thesis
    by (simp add: word_less_nat_alt)
qed

lemma nextStreamId_fresh:
  assumes odd: "list_ex (\<lambda>id. id mod 2 = 1) (map fst (streams c))"
    and small: "list_all (\<lambda>id. id < 2 ^ 31) (map fst (streams c))"
  shows "nextStreamId c = Max (set (filter (\<lambda>id. id mod 2 = 1) (map fst (streams c)))) + 2
    \<and> nextStreamId c mod 2 = 1
    \<and> nextStreamId c \<notin> set (map fst (streams c))"
proof -
  let ?keys = "map fst (streams c)"
  let ?odds = "filter (\<lambda>id. id mod 2 = 1) ?keys"
  let ?M = "Max (set ?odds)"
  from odd have ne: "?odds \<noteq> []"
    by (auto simp: list_ex_iff filter_empty_conv)
  then have sne: "streams c \<noteq> []" by auto
  from ne have nonempty: "set ?odds \<noteq> {}" by (metis set_empty)
  have inuse: "streamIdsInUse c \<noteq> []"
    using ne by (simp add: streamIdsInUse_eq)
  have "set (streamIdsInUse c) = insert 0 (set ?odds)"
    using sne by (auto simp: streamIdsInUse_eq)
  then have "Max (set (streamIdsInUse c)) = Max (insert 0 (set ?odds))"
    by simp
  also have "\<dots> = max 0 ?M"
    by (rule Max_insert [OF finite_set nonempty])
  also have "\<dots> = ?M"
    by (simp add: max_def)
  finally have mx: "max_uint32s (streamIdsInUse c) = ?M"
    using inuse by (simp add: max_uint32s_Max)
  then have n: "nextStreamId c = ?M + 2"
    using inuse by (simp add: nextStreamId_def)
  have Min: "?M \<in> set ?odds"
    by (rule Max_in [OF finite_set nonempty])
  then have Modd: "?M mod 2 = 1" and Mkey: "?M \<in> set ?keys"
    by auto
  from Mkey small have Msmall: "?M < 2 ^ 31"
    by (auto simp: list_all_iff)
  from Modd have "odd ?M"
    by (simp add: odd_iff_mod_2_eq_one)
  then have "odd (?M + 2)"
    by simp
  then have p: "(?M + 2) mod 2 = 1"
    by (simp only: odd_iff_mod_2_eq_one)
  have lt: "?M < ?M + 2"
    using Msmall by (rule uint32_add_2_less)
  have "?M + 2 \<notin> set ?keys"
  proof
    assume k: "?M + 2 \<in> set ?keys"
    with p have "?M + 2 \<in> set ?odds" by simp
    then have "?M + 2 \<le> ?M" by (rule Max_ge [OF finite_set])
    with lt show False by simp
  qed
  with n p show ?thesis by simp
qed

section \<open>Push promises\<close>

lemma update_existing_keys:
  "map_of al k = Some v \<Longrightarrow> map fst (AList.update k v' al) = map fst al"
  by (simp add: update_keys map_of_eq_None_iff [symmetric] del: map_of_eq_None_iff)

lemma HandleHttpRequest_GET:
  "err c = None \<Longrightarrow> GetHeader req '':method'' = ''GET'' \<Longrightarrow>
   HandleHttpRequest ext c req = handleGetRequest ext c req"
  by (simp add: HandleHttpRequest_def)

lemma doRequest_no_body:
  "reqData req = None \<Longrightarrow>
   doRequest c req =
     Some (Inr (c\<lparr>streams := AList.update (nextStreamId c)
        ((stream_New (nextStreamId c) (Some req)
            (initialSendWindowSizeForNewStreams (settings c))
            (initialReceiveWindowSizeForNewStreams (settings c)))
           \<lparr>sentFrames := [HeadersFrame (nextStreamId c) (reqHeaders req) True]\<rparr>)
        (streams c)\<rparr>))"
  by (simp add: doRequest_def newStream_def stream_SendFrame_def on_stream_def update_conv'
      stream_New_def)

text \<open>
  What the two GET requests do in every state. Let the push-promise cache hold \<open>path\<close>
  with the promised stream \<open>sid\<close>, a stream of the map (the cache is only filled for
  method GET, after the promised stream was stored). A GET request for \<open>path\<close> removes
  that cache entry and hands the request to the promised stream
  (\<open>AssociateWithRequest\<close>; an error it returns completes the request with that error):
  the keys of the streams map are the same as before, so no stream was allocated, and
  nothing was written. A second GET request for \<open>path\<close> finds no cache entry: it goes
  through \<open>doRequest\<close>, which stores a newly made stream for that request under the id
  \<open>newStream\<close> chooses and hands it a HEADERS frame. That id is not one of the map, and
  the adopted stream stays as the first request left it, when the map holds an odd
  id and all ids are below \<open>2^31\<close>.
\<close>

lemma push_promise_consumed_once:
  assumes cached: "promisedStreamIDs c path = Some sid"
    and exists: "map_of (streams c) sid = Some s"
    and noerr: "err c = None"
    and get1: "GetHeader req1 '':method'' = ''GET''" "GetHeader req1 '':path'' = path"
    and get2: "GetHeader req2 '':method'' = ''GET''" "GetHeader req2 '':path'' = path"
      "reqData req2 = None"
  shows "\<exists>c1 c2.
     HandleHttpRequest ext c req1 = Some (Inr c1)
     \<and> c1 = c\<lparr>promisedStreamIDs := (promisedStreamIDs c)(path := None),
              streams := AList.update sid (fst (AssociateWithRequest ext s req1)) (streams c),
              completions :=
                (case snd (AssociateWithRequest ext s req1) of
                   None \<Rightarrow> completions c
                 | Some e \<Rightarrow> completions c @ [HttpCompletedWithError req1 e])\<rparr>
     \<and> map fst (streams c1) = map fst (streams c)
     \<and> conn c1 = conn c
     \<and> promisedStreamIDs c1 path = None
     \<and> HandleHttpRequest ext c1 req2 = doRequest c1 req2
     \<and> HandleHttpRequest ext c1 req2 = Some (Inr c2)
     \<and> map_of (streams c2) (nextStreamId c1) =
         Some ((stream_New (nextStreamId c1) (Some req2)
                  (initialSendWindowSizeForNewStreams (settings c))
                  (initialReceiveWindowSizeForNewStreams (settings c)))
                 \<lparr>sentFrames := [HeadersFrame (nextStreamId c1) (reqHeaders req2) True]\<rparr>)
     \<and> promisedStreamIDs c2 = promisedStreamIDs c1
     \<and> (list_ex (\<lambda>id. id mod 2 = 1) (map fst (streams c))
          \<and> list_all (\<lambda>id. id < 2 ^ 31) (map fst (streams c)) \<longrightarrow>
        nextStreamId c1 \<notin> set (map fst (streams c1))
        \<and> map_of (streams c2) sid = Some (fst (AssociateWithRequest ext s req1)))"
proof -
  obtain s' e where a: "AssociateWithRequest ext s req1 = (s', e)"
    by (cases "AssociateWithRequest ext s req1")
  define c1 where "c1 = c\<lparr>promisedStreamIDs := (promisedStreamIDs c)(path := None),
              streams := AList.update sid s' (streams c),
              completions :=
                (case e of
                   None \<Rightarrow> completions c
                 | Some e \<Rightarrow> completions c @ [HttpCompletedWithError req1 e])\<rparr>"
  define c2 where "c2 = c1\<lparr>streams := AList.update (nextStreamId c1)
        ((stream_New (nextStreamId c1) (Some req2)
            (initialSendWindowSizeForNewStreams (settings c1))
            (initialReceiveWindowSizeForNewStreams (settings c1)))
           \<lparr>sentFrames := [HeadersFrame (nextStreamId c1) (reqHeaders req2) True]\<rparr>)
        (streams c1)\<rparr>"
  have 1: "HandleHttpRequest ext c req1 = Some (Inr c1)"
    using cached exists get1 a
    by (cases e)
      (simp_all add: HandleHttpRequest_GET [OF noerr] handleGetRequest_def
        findStreamCreatedWithPushPromise_def c1_def)
  have keys: "map fst (streams c1) = map fst (streams c)"
    using exists by (simp add: c1_def update_existing_keys)
  have e1: "err c1 = None" and p1: "promisedStreamIDs c1 path = None"
    and st: "settings c1 = settings c" and cn: "conn c1 = conn c"
    using noerr by (simp_all add: c1_def)
  have 2: "HandleHttpRequest ext c1 req2 = doRequest c1 req2"
    using p1 get2 by (simp add: HandleHttpRequest_GET [OF e1] handleGetRequest_def
        findStreamCreatedWithPushPromise_def)
  have 3: "doRequest c1 req2 = Some (Inr c2)"
    using get2(3) by (simp add: doRequest_no_body c2_def)
  have 4: "map_of (streams c2) (nextStreamId c1) =
         Some ((stream_New (nextStreamId c1) (Some req2)
                  (initialSendWindowSizeForNewStreams (settings c))
                  (initialReceiveWindowSizeForNewStreams (settings c)))
                 \<lparr>sentFrames := [HeadersFrame (nextStreamId c1) (reqHeaders req2) True]\<rparr>)"
    by (simp add: c2_def update_conv' st)
  have 5: "promisedStreamIDs c2 = promisedStreamIDs c1"
    by (simp add: c2_def)
  have 6: "nextStreamId c1 \<notin> set (map fst (streams c1))
        \<and> map_of (streams c2) sid = Some s'"
    if h: "list_ex (\<lambda>id. id mod 2 = 1) (map fst (streams c))
          \<and> list_all (\<lambda>id. id < 2 ^ 31) (map fst (streams c))"
  proof -
    from h keys have "list_ex (\<lambda>id. id mod 2 = 1) (map fst (streams c1))"
      and "list_all (\<lambda>id. id < 2 ^ 31) (map fst (streams c1))"
      by simp_all
    from nextStreamId_fresh [OF this] have f: "nextStreamId c1 \<notin> set (map fst (streams c1))"
      by blast
    from exists have "sid \<in> set (map fst (streams c))"
      by (metis map_of_eq_None_iff option.distinct(1) set_map)
    with f keys have "nextStreamId c1 \<noteq> sid"
      by auto
    then have "map_of (streams c2) sid = Some s'"
      by (simp add: c2_def c1_def update_conv')
    with f show ?thesis by simp
  qed
  have c1eq: "c1 = c\<lparr>promisedStreamIDs := (promisedStreamIDs c)(path := None),
              streams := AList.update sid (fst (AssociateWithRequest ext s req1)) (streams c),
              completions :=
                (case snd (AssociateWithRequest ext s req1) of
                   None \<Rightarrow> completions c
                 | Some e \<Rightarrow> completions c @ [HttpCompletedWithError req1 e])\<rparr>"
    by (simp add: c1_def a)
  from 2 3 have 23: "HandleHttpRequest ext c1 req2 = Some (Inr c2)"
    by simp
  from 6 a have f6: "list_ex (\<lambda>id. id mod 2 = 1) (map fst (streams c))
          \<and> list_all (\<lambda>id. id < 2 ^ 31) (map fst (streams c)) \<longrightarrow>
        nextStreamId c1 \<notin> set (map fst (streams c1))
        \<and> map_of (streams c2) sid = Some (fst (AssociateWithRequest ext s req1))"
    by simp
  show ?thesis
    apply (rule exI [of _ c1], rule exI [of _ c2], intro conjI)
             apply (fact 1)
            apply (fact c1eq)
           apply (fact keys)
          apply (fact cn)
         apply (fact p1)
        apply (fact 2)
       apply (fact 23)
      apply (fact 4)
     apply (fact 5)
    apply (fact f6)
    done
qed

lemma push_promise_cached:
  assumes "getStreamIfExists c sid = Some parent"
    and "GetState ext parent = OPEN \<or> GetState ext parent = HALF_CLOSED_REMOTE"
    and "findHeader '':method'' headers = ''GET''"
  shows "promisedStreamIDs (handleIncomingPushPromiseFrame ext c
           (PushPromiseFrame sid promised headers)) (findHeader '':path'' headers) = Some promised
    \<and> map_of (streams (handleIncomingPushPromiseFrame ext c
           (PushPromiseFrame sid promised headers))) promised \<noteq> None"
  using assms
  by (auto simp: handleIncomingPushPromiseFrame_def Let_def stream_ReceiveFrame_def
      on_stream_def getOrCreateStream_def getStreamIfExists_def update_conv'
      split: option.splits)

lemma push_promise_consumed_once_example:
  "promisedStreamIDs cpush ''/style.css'' = Some 2
   \<and> map_of (streams cpush) 2 = Some (stream_New 2 None 65535 65535)
   \<and> err cpush = None
   \<and> GetHeader get_css '':method'' = ''GET''
   \<and> GetHeader get_css '':path'' = ''/style.css''
   \<and> reqData get_css = None
   \<and> list_ex (\<lambda>id. id mod 2 = 1) (map fst (streams cpush))
   \<and> list_all (\<lambda>id. id < 2 ^ 31) (map fst (streams cpush))
   \<and> (\<exists>c1 c2. HandleHttpRequest example_externals cpush get_css = Some (Inr c1)
        \<and> map fst (streams c1) = [1, 2]
        \<and> map_of (streams c1) 2 = Some ((stream_New 2 None 65535 65535)\<lparr>request := Some get_css\<rparr>)
        \<and> conn c1 = conn cpush
        \<and> promisedStreamIDs c1 ''/style.css'' = None
        \<and> HandleHttpRequest example_externals c1 get_css = Some (Inr c2)
        \<and> nextStreamId c1 = 3
        \<and> map fst (streams c2) = [1, 2, 3]
        \<and> map_of (streams c2) 3 =
            Some ((stream_New 3 (Some get_css) 65535 65535)
                    \<lparr>sentFrames := [HeadersFrame 3 (reqHeaders get_css) True]\<rparr>)
        \<and> map_of (streams c2) 2 = Some ((stream_New 2 None 65535 65535)\<lparr>request := Some get_css\<rparr>))"
proof -
  have h: "promisedStreamIDs cpush ''/style.css'' = Some 2"
    "map_of (streams cpush) 2 = Some (stream_New 2 None 65535 65535)"
    "err cpush = None"
    "GetHeader get_css '':method'' = ''GET''"
    "GetHeader get_css '':path'' = ''/style.css''"
    "reqData get_css = None"
    by (simp_all add: cpush_def get_css_def GetHeader_def example_connection_def newConnection_def)
  have l: "list_ex (\<lambda>id. id mod 2 = 1) (map fst (streams cpush))
     \<and> list_all (\<lambda>id. id < 2 ^ 31) (map fst (streams cpush))"
    by (simp add: cpush_def)
  have a: "AssociateWithRequest example_externals (stream_New 2 None 65535 65535) get_css =
      ((stream_New 2 None 65535 65535)\<lparr>request := Some get_css\<rparr>, None)"
    by (simp add: example_externals_def stream_New_def)
  from push_promise_consumed_once [OF h(1,2,3,4,5,4,5,6), of example_externals]
  obtain c1 c2 where r:
    "HandleHttpRequest example_externals cpush get_css = Some (Inr c1)"
    "c1 = cpush\<lparr>promisedStreamIDs := (promisedStreamIDs cpush)(''/style.css'' := None),
              streams := AList.update 2
                (fst (AssociateWithRequest example_externals (stream_New 2 None 65535 65535) get_css))
                (streams cpush),
              completions :=
                (case snd (AssociateWithRequest example_externals (stream_New 2 None 65535 65535) get_css) of
                   None \<Rightarrow> completions cpush
                 | Some e \<Rightarrow> completions cpush @ [HttpCompletedWithError get_css e])\<rparr>"
    "map fst (streams c1) = map fst (streams cpush)"
    "conn c1 = conn cpush"
    "promisedStreamIDs c1 ''/style.css'' = None"
    "HandleHttpRequest example_externals c1 get_css = Some (Inr c2)"
    "HandleHttpRequest example_externals c1 get_css = doRequest c1 get_css"
    "map_of (streams c2) (nextStreamId c1) =
         Some ((stream_New (nextStreamId c1) (Some get_css)
                  (initialSendWindowSizeForNewStreams (settings cpush))
                  (initialReceiveWindowSizeForNewStreams (settings cpush)))
                 \<lparr>sentFrames := [HeadersFrame (nextStreamId c1) (reqHeaders get_css) True]\<rparr>)"
    "list_ex (\<lambda>id. id mod 2 = 1) (map fst (streams cpush))
          \<and> list_all (\<lambda>id. id < 2 ^ 31) (map fst (streams cpush)) \<longrightarrow>
        nextStreamId c1 \<notin> set (map fst (streams c1))
        \<and> map_of (streams c2) 2 =
            Some (fst (AssociateWithRequest example_externals (stream_New 2 None 65535 65535) get_css))"
    by blast
  from r(2) a have s1: "streams c1 =
      [(1, stream_New 1 None 65535 65535),
       (2, (stream_New 2 None 65535 65535)\<lparr>request := Some get_css\<rparr>)]"
    by (simp add: cpush_def)
  then have n: "nextStreamId c1 = 3"
    by (simp add: nextStreamId_def streamIdsInUse_def max_uint32s_def)
  from r(2) have st: "settings c1 = settings example_connection"
    by (simp add: cpush_def)
  from r(6,7) get_css_def have "doRequest c1 get_css = Some (Inr c2)"
    by simp
  then have "c2 = c1\<lparr>streams := AList.update (nextStreamId c1)
        ((stream_New (nextStreamId c1) (Some get_css)
            (initialSendWindowSizeForNewStreams (settings c1))
            (initialReceiveWindowSizeForNewStreams (settings c1)))
           \<lparr>sentFrames := [HeadersFrame (nextStreamId c1) (reqHeaders get_css) True]\<rparr>)
        (streams c1)\<rparr>"
    by (simp add: doRequest_no_body h(6))
  then have s2: "map fst (streams c2) = [1, 2, 3]"
    by (simp add: n s1)
  have w: "initialSendWindowSizeForNewStreams (settings cpush) = 65535"
    "initialReceiveWindowSizeForNewStreams (settings cpush) = 65535"
    by (simp_all add: cpush_def example_connection_def newConnection_def)
  from r(8) n w have m3: "map_of (streams c2) 3 =
            Some ((stream_New 3 (Some get_css) 65535 65535)
                    \<lparr>sentFrames := [HeadersFrame 3 (reqHeaders get_css) True]\<rparr>)"
    by simp
  from r(9) l a have m2: "map_of (streams c2) 2 =
      Some ((stream_New 2 None 65535 65535)\<lparr>request := Some get_css\<rparr>)"
    by simp
  from s1 have k1: "map fst (streams c1) = [1, 2]"
    and m1: "map_of (streams c1) 2 = Some ((stream_New 2 None 65535 65535)\<lparr>request := Some get_css\<rparr>)"
    by simp_all
  have ex: "\<exists>c1 c2. HandleHttpRequest example_externals cpush get_css = Some (Inr c1)
        \<and> map fst (streams c1) = [1, 2]
        \<and> map_of (streams c1) 2 = Some ((stream_New 2 None 65535 65535)\<lparr>request := Some get_css\<rparr>)
        \<and> conn c1 = conn cpush
        \<and> promisedStreamIDs c1 ''/style.css'' = None
        \<and> HandleHttpRequest example_externals c1 get_css = Some (Inr c2)
        \<and> nextStreamId c1 = 3
        \<and> map fst (streams c2) = [1, 2, 3]
        \<and> map_of (streams c2) 3 =
            Some ((stream_New 3 (Some get_css) 65535 65535)
                    \<lparr>sentFrames := [HeadersFrame 3 (reqHeaders get_css) True]\<rparr>)
        \<and> map_of (streams c2) 2 = Some ((stream_New 2 None 65535 65535)\<lparr>request := Some get_css\<rparr>)"
    by (rule exI [of _ c1], rule exI [of _ c2], intro conjI)
      (fact r(1) k1 m1 r(4) r(5) r(6) n s2 m3 m2)+
  from l have l1: "list_ex (\<lambda>id. id mod 2 = 1) (map fst (streams cpush))"
    and l2: "list_all (\<lambda>id. id < 2 ^ 31) (map fst (streams cpush))"
    by simp_all
  from h l1 l2 ex show ?thesis
    by (intro conjI)
qed

text \<open>
  Claim C8. The claim says that the second GET request for the path allocates a fresh
  client stream. In the code the id of that stream is chosen by \<open>newStream\<close>, which gives
  2 whenever the streams map holds no odd id. On a new connection the peer sends HEADERS
  on stream 4 and then PUSH_PROMISE on stream 4, promising stream 2 for a GET of
  \<open>/style.css\<close>. The first GET request for \<open>/style.css\<close> is bound to stream 2 and removes
  the cache entry, and no stream is allocated. The second GET request for the path finds
  no cache entry and allocates its stream under the id 2: the map has the same two keys
  as before, and the stream that the first request adopted is replaced by the stream of
  the second request, with its HEADERS frame.
\<close>

theorem second_GET_overwrites_adopted_stream:
  "\<exists>c1 c2 c3 c4.
     HandleIncomingFrame example_externals example_connection (HeadersFrame 4 [] False) = Inr c1
   \<and> HandleIncomingFrame example_externals c1 (PushPromiseFrame 4 2 (reqHeaders get_css)) = Inr c2
   \<and> map fst (streams c2) = [4, 2]
   \<and> promisedStreamIDs c2 ''/style.css'' = Some 2
   \<and> HandleHttpRequest example_externals c2 get_css = Some (Inr c3)
   \<and> promisedStreamIDs c3 ''/style.css'' = None
   \<and> map fst (streams c3) = [4, 2]
   \<and> map_of (streams c3) 2 =
        Some ((stream_New 2 None 65535 65535)
                \<lparr>request := Some get_css,
                  receivedFrames := [PushPromiseFrame 4 2 (reqHeaders get_css)]\<rparr>)
   \<and> nextStreamId c3 = 2
   \<and> HandleHttpRequest example_externals c3 get_css_again = Some (Inr c4)
   \<and> map fst (streams c4) = [4, 2]
   \<and> map_of (streams c4) 2 =
        Some ((stream_New 2 (Some get_css_again) 65535 65535)
                \<lparr>sentFrames := [HeadersFrame 2 (reqHeaders get_css_again) True]\<rparr>)"
  by (simp add: HandleIncomingFrame_def handleFrameForStream_def handleIncomingPushPromiseFrame_def
      getOrCreateStream_def getStreamIfExists_def stream_ReceiveFrame_def on_stream_def
      example_externals_def example_connection_def newConnection_def stream_New_def
      get_css_def get_css_again_def HandleHttpRequest_def handleGetRequest_def GetHeader_def
      findStreamCreatedWithPushPromise_def doRequest_def newStream_def nextStreamId_def
      streamIdsInUse_def max_uint32s_def stream_SendFrame_def Let_def)

lemma sendDataFrames_loop_one_byte:
  "sendDataFrames_loop 16384 1 [65] 2 0 c =
     Some (Inr (stream_SendFrame 2 (DataFrame 2 [65] True) c))"
  apply (subst sendDataFrames_loop.simps)
  apply (simp add: bytes_slice_def min_uint32_def)
  apply (subst sendDataFrames_loop.simps)
  apply simp
  done

text \<open>
  In the same state a POST request made before the GET request takes the id 2 as well:
  it replaces the promised stream, and the GET request for \<open>/style.css\<close> is then handed
  to the stream of the POST request.
\<close>

lemma POST_replaces_promised_stream:
  "\<exists>c1 c2 c3 c4.
     HandleIncomingFrame example_externals example_connection (HeadersFrame 4 [] False) = Inr c1
   \<and> HandleIncomingFrame example_externals c1 (PushPromiseFrame 4 2 (reqHeaders get_css)) = Inr c2
   \<and> nextStreamId c2 = 2
   \<and> HandleHttpRequest example_externals c2 post_form = Some (Inr c3)
   \<and> map fst (streams c3) = [4, 2]
   \<and> map_of (streams c3) 2 =
        Some ((stream_New 2 (Some post_form) 65535 65535)
                \<lparr>sentFrames := [HeadersFrame 2 (reqHeaders post_form) False,
                                 DataFrame 2 [65] True]\<rparr>)
   \<and> promisedStreamIDs c3 ''/style.css'' = Some 2
   \<and> HandleHttpRequest example_externals c3 get_css = Some (Inr c4)
   \<and> map_of (streams c4) 2 =
        Some ((stream_New 2 (Some post_form) 65535 65535)
                \<lparr>sentFrames := [HeadersFrame 2 (reqHeaders post_form) False,
                                 DataFrame 2 [65] True]\<rparr>)
   \<and> completions c4 = [HttpCompletedWithError get_css ''stream has a request'']"
proof -
  define s4 where "s4 = (stream_New 4 None 65535 65535)\<lparr>receivedFrames := [HeadersFrame 4 [] False]\<rparr>"
  define s2 where "s2 = (stream_New 2 None 65535 65535)
      \<lparr>receivedFrames := [PushPromiseFrame 4 2 (reqHeaders get_css)]\<rparr>"
  define p2 where "p2 = (stream_New 2 (Some post_form) 65535 65535)
      \<lparr>sentFrames := [HeadersFrame 2 (reqHeaders post_form) False, DataFrame 2 [65] True]\<rparr>"
  define c1 where "c1 = example_connection\<lparr>streams := [(4, s4)]\<rparr>"
  define c2 where "c2 = example_connection\<lparr>streams := [(4, s4), (2, s2)],
      promisedStreamIDs := [''/style.css'' \<mapsto> 2]\<rparr>"
  define c3 where "c3 = example_connection\<lparr>streams := [(4, s4), (2, p2)],
      promisedStreamIDs := [''/style.css'' \<mapsto> 2]\<rparr>"
  define c4 where "c4 = example_connection\<lparr>streams := [(4, s4), (2, p2)],
      promisedStreamIDs := Map.empty,
      completions := [HttpCompletedWithError get_css ''stream has a request'']\<rparr>"
  have 1: "HandleIncomingFrame example_externals example_connection (HeadersFrame 4 [] False) = Inr c1"
    by (simp add: HandleIncomingFrame_def handleFrameForStream_def getOrCreateStream_def
        getStreamIfExists_def stream_ReceiveFrame_def on_stream_def example_connection_def
        newConnection_def c1_def s4_def stream_New_def)
  have 2: "HandleIncomingFrame example_externals c1 (PushPromiseFrame 4 2 (reqHeaders get_css)) = Inr c2"
    by (simp add: HandleIncomingFrame_def handleFrameForStream_def handleIncomingPushPromiseFrame_def
        getOrCreateStream_def getStreamIfExists_def stream_ReceiveFrame_def on_stream_def
        example_externals_def example_connection_def newConnection_def c1_def c2_def s4_def s2_def
        stream_New_def get_css_def Let_def)
  have 3: "nextStreamId c2 = 2"
    by (simp add: nextStreamId_def streamIdsInUse_def max_uint32s_def c2_def)
  have 4: "HandleHttpRequest example_externals c2 post_form = Some (Inr c3)"
    by (simp add: HandleHttpRequest_def handlePostRequest_def GetHeader_def post_form_def
        doRequest_def newStream_def nextStreamId_def streamIdsInUse_def max_uint32s_def Let_def
        sendDataFrames_def c2_def c3_def p2_def
        example_connection_def newConnection_def stream_SendFrame_def on_stream_def
        sendDataFrames_loop_one_byte stream_New_def)
  have 5: "HandleHttpRequest example_externals c3 get_css = Some (Inr c4)"
    by (simp add: HandleHttpRequest_def handleGetRequest_def GetHeader_def get_css_def
        findStreamCreatedWithPushPromise_def c3_def c4_def p2_def example_externals_def
        example_connection_def newConnection_def stream_New_def)
  show ?thesis
    apply (rule exI [of _ c1], rule exI [of _ c2], rule exI [of _ c3], rule exI [of _ c4])
    apply (intro conjI)
            apply (fact 1)
           apply (fact 2)
          apply (fact 3)
         apply (fact 4)
        apply (simp add: c3_def)
       apply (simp add: c3_def p2_def)
      apply (simp add: c3_def)
     apply (fact 5)
    apply (simp add: c4_def p2_def)
    apply (simp add: c4_def)
    done
qed

end
